theory Spec2Isabelle
  imports Complex_Main
begin

section \<open>Python values, strings and floats\<close>

text \<open>
  The receipt bot is Python. Text is modelled as ASCII \<open>string\<close>s: the character
  classes \<open>\s\<close> and \<open>\d\<close> of the regular expressions and \<open>str.strip\<close> are the ASCII
  parts of Python's classes. A Python \<open>float\<close> is modelled by the exact rational its
  decimal literal denotes (\<open>Finite\<close>), or one of the special values; rounding to
  binary64 is not modelled, apart from the overflow of an integer conversion.
\<close>

definition is_space :: "char \<Rightarrow> bool" where
  "is_space c = (let n = (of_char c :: int) in (9 \<le> n \<and> n \<le> 13) \<or> (28 \<le> n \<and> n \<le> 32))"

definition is_digit :: "char \<Rightarrow> bool" where
  "is_digit c = (let n = (of_char c :: int) in 48 \<le> n \<and> n \<le> 57)"

definition digit_val :: "char \<Rightarrow> int" where
  "digit_val c = of_char c - 48"

definition lower_char :: "char \<Rightarrow> char" where
  "lower_char c = (let n = (of_char c :: int) in if 65 \<le> n \<and> n \<le> 90 then char_of (n + 32) else c)"

definition lower :: "string \<Rightarrow> string" where
  "lower s = map lower_char s"

text \<open>\<open>str.strip()\<close>: leading and trailing whitespace removed.\<close>

definition strip :: "string \<Rightarrow> string" where
  "strip s = rev (dropWhile is_space (rev (dropWhile is_space s)))"

text \<open>The value of a digit string read in base ten, as \<open>int(...)\<close> reads it.\<close>

definition digits_val :: "string \<Rightarrow> int" where
  "digits_val ds = foldl (\<lambda>acc c. 10 * acc + digit_val c) 0 ds"

datatype pyfloat = Finite rat | PosInf | NegInf | NaN

text \<open>
  Python objects as far as the pipeline meets them: what \<open>json.loads\<close> returns, and
  the field values of a line item. A \<open>dict\<close> is the list of its key/value pairs.
\<close>

datatype pyval =
    PNone
  | PBool bool
  | PInt int
  | PFloat pyfloat
  | PStr string
  | PList "pyval list"
  | PDict "(string \<times> pyval) list"

text \<open>Truthiness, as \<open>if x\<close> and \<open>x or y\<close> test it.\<close>

fun float_truthy :: "pyfloat \<Rightarrow> bool" where
  "float_truthy (Finite r) = (r \<noteq> 0)"
| "float_truthy _ = True"

fun truthy :: "pyval \<Rightarrow> bool" where
  "truthy PNone = False"
| "truthy (PBool b) = b"
| "truthy (PInt n) = (n \<noteq> 0)"
| "truthy (PFloat f) = float_truthy f"
| "truthy (PStr s) = (s \<noteq> [])"
| "truthy (PList xs) = (xs \<noteq> [])"
| "truthy (PDict kvs) = (kvs \<noteq> [])"

text \<open>
  The grammar of \<open>float(str)\<close>: surrounding whitespace, an optional sign, then
  \<open>inf\<close>, \<open>infinity\<close> or \<open>nan\<close> in any case, or a decimal number with an optional
  exponent. A group of digits may hold single underscores between digits.
\<close>

fun digitpart_rest :: "string \<Rightarrow> string \<times> string" where
  "digitpart_rest [] = ([], [])"
| "digitpart_rest [c] = (if is_digit c then ([c], []) else ([], [c]))"
| "digitpart_rest (c # d # cs) =
     (if is_digit c then (let (ds, r) = digitpart_rest (d # cs) in (c # ds, r))
      else if c = CHR ''_'' \<and> is_digit d then (let (ds, r) = digitpart_rest (d # cs) in (ds, r))
      else ([], c # d # cs))"

text \<open>
  \<open>digitpart s\<close> reads a digit group at the head of \<open>s\<close>: the digits (underscores
  dropped) and the rest; a group starts with a digit.
\<close>

definition digitpart :: "string \<Rightarrow> string \<times> string" where
  "digitpart s = (case s of [] \<Rightarrow> ([], []) | c # cs \<Rightarrow> if is_digit c then digitpart_rest s else ([], s))"

definition split_sign :: "string \<Rightarrow> bool \<times> string" where
  "split_sign s = (case s of
      c # cs \<Rightarrow> if c = CHR ''-'' then (True, cs) else if c = CHR ''+'' then (False, cs) else (False, s)
    | [] \<Rightarrow> (False, s))"

definition scale10 :: "rat \<Rightarrow> int \<Rightarrow> rat" where
  "scale10 m e = (if 0 \<le> e then m * 10 ^ nat e else m / 10 ^ nat (- e))"

definition float_exponent :: "string \<Rightarrow> int option" where
  "float_exponent s = (case s of
      [] \<Rightarrow> Some 0
    | c # cs \<Rightarrow>
        if c = CHR ''e'' \<or> c = CHR ''E'' then
          (let (neg, body) = split_sign cs; (ds, r) = digitpart body in
           if ds = [] \<or> r \<noteq> [] then None
           else Some (if neg then - digits_val ds else digits_val ds))
        else None)"

definition floatnumber :: "string \<Rightarrow> rat option" where
  "floatnumber s =
     (let (ip, r1) = digitpart s;
          (dot, r2) = (case r1 of c # cs \<Rightarrow> if c = CHR ''.'' then (True, cs) else (False, r1) | [] \<Rightarrow> (False, r1));
          (fp, r3) = (if dot then digitpart r2 else ([], r2))
      in if ip = [] \<and> fp = [] then None
         else (case float_exponent r3 of
                 None \<Rightarrow> None
               | Some e \<Rightarrow> Some (scale10 (of_int (digits_val (ip @ fp)) / 10 ^ length fp) e)))"

definition float_of_str :: "string \<Rightarrow> pyfloat option" where
  "float_of_str s =
     (let (neg, body) = split_sign (strip s); low = lower body in
      if low = ''inf'' \<or> low = ''infinity'' then Some (if neg then NegInf else PosInf)
      else if low = ''nan'' then Some NaN
      else (case floatnumber body of
              None \<Rightarrow> None
            | Some r \<Rightarrow> Some (Finite (if neg then - r else r))))"

text \<open>
  \<open>float(x)\<close> on a Python object. A string outside the grammar raises \<open>ValueError\<close>,
  \<open>None\<close>, a list or a dict raise \<open>TypeError\<close>, and an integer beyond the binary64
  range raises \<open>OverflowError\<close>.
\<close>

datatype exn = ValueError | TypeError | OverflowError | TimeoutError | OtherError string

definition float_int_limit :: int where
  "float_int_limit = 2 ^ 1024 - 2 ^ 970"

fun py_float :: "pyval \<Rightarrow> exn + pyfloat" where
  "py_float PNone = Inl TypeError"
| "py_float (PBool b) = Inr (Finite (if b then 1 else 0))"
| "py_float (PInt n) = (if \<bar>n\<bar> \<ge> float_int_limit then Inl OverflowError else Inr (Finite (of_int n)))"
| "py_float (PFloat f) = Inr f"
| "py_float (PStr s) = (case float_of_str s of None \<Rightarrow> Inl ValueError | Some f \<Rightarrow> Inr f)"
| "py_float (PList xs) = Inl TypeError"
| "py_float (PDict kvs) = Inl TypeError"

section \<open>Amount parsing (\<open>PDFExtractor._parse_amount\<close>)\<close>

text \<open>
  \<open>re.sub(r"[^\d.]", "", value.replace(",", ""))\<close> keeps the digits and the dots;
  \<open>float\<close> of the result, \<open>None\<close> on \<open>ValueError\<close> and on an empty value.
\<close>

definition clean_amount :: "string \<Rightarrow> string" where
  "clean_amount v = filter (\<lambda>c. is_digit c \<or> c = CHR ''.'') (filter (\<lambda>c. c \<noteq> CHR '','') v)"

definition parse_amount :: "string \<Rightarrow> pyfloat option" where
  "parse_amount v = (if v = [] then None else float_of_str (clean_amount v))"

section \<open>Line items and the AI JSON stage (\<open>_parse_gemini_json_response\<close>)\<close>

text \<open>
  A line item is the dict with the keys \<open>Date\<close>, \<open>Item\<close>, \<open>Price\<close>, \<open>Qty\<close>, \<open>Total\<close>.
  The table stage builds its dicts without the key \<open>Date\<close>, hence the option. The
  numeric fields hold whatever object the stage left there.
\<close>

record line_item =
  Date :: "string option"
  Item :: string
  Price :: pyval
  Qty :: pyval
  Total :: pyval

text \<open>A calendar date, and \<open>strftime("%d/%m/%Y")\<close>.\<close>

record date =
  day :: int
  month :: int
  year :: int

definition digit_char :: "int \<Rightarrow> char" where
  "digit_char d = char_of (48 + d mod 10)"

definition pad2 :: "int \<Rightarrow> string" where
  "pad2 n = [digit_char (n div 10), digit_char n]"

definition pad4 :: "int \<Rightarrow> string" where
  "pad4 n = [digit_char (n div 1000), digit_char (n div 100), digit_char (n div 10), digit_char n]"

definition strftime_dmy :: "date \<Rightarrow> string" where
  "strftime_dmy d = pad2 (day d) @ ''/'' @ pad2 (month d) @ ''/'' @ pad4 (year d)"

text \<open>
  What the model takes from the Python library: the calendar date \<open>datetime.now()\<close>
  falls on (taken as constant over one call), \<open>str\<close> of a float, list or dict, and
  the decoding of a response text, that is the removal of code fences and of text
  around the outermost brackets followed by \<open>json.loads\<close>, \<open>None\<close> standing for
  \<open>JSONDecodeError\<close>. The pairs of a decoded dict have distinct keys.
\<close>

record pylib =
  today :: date
  repr_other :: "pyval \<Rightarrow> string"
  json_decode :: "string \<Rightarrow> pyval option"

fun show_nat :: "nat \<Rightarrow> string" where
  "show_nat n = (if n < 10 then [digit_char (int n)] else show_nat (n div 10) @ [digit_char (int n)])"

definition show_int :: "int \<Rightarrow> string" where
  "show_int n = (if n < 0 then CHR ''-'' # show_nat (nat (- n)) else show_nat (nat n))"

fun py_str :: "pylib \<Rightarrow> pyval \<Rightarrow> string" where
  "py_str L (PStr s) = s"
| "py_str L PNone = ''None''"
| "py_str L (PBool b) = (if b then ''True'' else ''False'')"
| "py_str L (PInt n) = show_int n"
| "py_str L v = repr_other L v"

text \<open>\<open>d.get(key, default)\<close>.\<close>

definition dict_get :: "(string \<times> pyval) list \<Rightarrow> string \<Rightarrow> pyval \<Rightarrow> pyval" where
  "dict_get kvs k d = (case map_of kvs k of Some v \<Rightarrow> v | None \<Rightarrow> d)"

text \<open>\<open>float(x) if x else d\<close>.\<close>

definition coerce :: "pyval \<Rightarrow> int \<Rightarrow> exn + pyval" where
  "coerce v d = (if truthy v then (case py_float v of Inl e \<Rightarrow> Inl e | Inr f \<Rightarrow> Inr (PFloat f))
                 else Inr (PInt d))"

text \<open>\<open>except (ValueError, TypeError): pass\<close> keeps the row as it stands.\<close>

definition coerce_handler :: "exn \<Rightarrow> line_item \<Rightarrow> exn + line_item" where
  "coerce_handler e row = (if e = ValueError \<or> e = TypeError then Inr row else Inl e)"

text \<open>The three assignments of the one \<open>try\<close> block, in their order.\<close>

definition coerce_numbers :: "line_item \<Rightarrow> exn + line_item" where
  "coerce_numbers row =
     (case coerce (Price row) 0 of
        Inl e \<Rightarrow> coerce_handler e row
      | Inr p \<Rightarrow>
          (let row1 = row\<lparr>Price := p\<rparr> in
           case coerce (Qty row1) 1 of
             Inl e \<Rightarrow> coerce_handler e row1
           | Inr q \<Rightarrow>
               (let row2 = row1\<lparr>Qty := q\<rparr> in
                case coerce (Total row2) 0 of
                  Inl e \<Rightarrow> coerce_handler e row2
                | Inr t \<Rightarrow> Inr (row2\<lparr>Total := t\<rparr>))))"

definition make_row :: "pylib \<Rightarrow> (string \<times> pyval) list \<Rightarrow> line_item" where
  "make_row L kvs =
     \<lparr>Date = Some (py_str L (dict_get kvs ''Date'' (PStr (strftime_dmy (today L))))),
      Item = py_str L (dict_get kvs ''Item'' (PStr ''Unknown'')),
      Price = dict_get kvs ''Price'' (PInt 0),
      Qty = dict_get kvs ''Qty'' (PInt 1),
      Total = dict_get kvs ''Total'' (PInt 0)\<rparr>"

text \<open>The loop over the decoded array: entries that are not dicts are skipped.\<close>

fun normalize_items :: "pylib \<Rightarrow> pyval list \<Rightarrow> exn + line_item list" where
  "normalize_items L [] = Inr []"
| "normalize_items L (PDict kvs # rest) =
     (case coerce_numbers (make_row L kvs) of
        Inl e \<Rightarrow> Inl e
      | Inr row \<Rightarrow> (case normalize_items L rest of Inl e \<Rightarrow> Inl e | Inr rows \<Rightarrow> Inr (row # rows)))"
| "normalize_items L (v # rest) = normalize_items L rest"

text \<open>
  The result is \<open>None\<close> for a blank response, a text that does not decode, a decoded
  value that is not a list, and an empty list of rows.
\<close>

definition parse_gemini_json_response :: "pylib \<Rightarrow> string \<Rightarrow> exn + line_item list option" where
  "parse_gemini_json_response L response =
     (if response = [] \<or> strip response = [] then Inr None
      else (case json_decode L response of
              None \<Rightarrow> Inr None
            | Some (PList entries) \<Rightarrow>
                (case normalize_items L entries of
                   Inl e \<Rightarrow> Inl e
                 | Inr rows \<Rightarrow> Inr (if rows = [] then None else Some rows))
            | Some v \<Rightarrow> Inr None))"

section \<open>Float comparison and arithmetic\<close>

fun float_less :: "pyfloat \<Rightarrow> pyfloat \<Rightarrow> bool" where
  "float_less (Finite a) (Finite b) = (a < b)"
| "float_less (Finite a) PosInf = True"
| "float_less NegInf (Finite b) = True"
| "float_less NegInf PosInf = True"
| "float_less _ _ = False"

definition float_sign :: "pyfloat \<Rightarrow> int" where
  "float_sign f = (case f of Finite r \<Rightarrow> (if r < 0 then - 1 else if r = 0 then 0 else 1)
                   | PosInf \<Rightarrow> 1 | NegInf \<Rightarrow> - 1 | NaN \<Rightarrow> 0)"

definition float_mul :: "pyfloat \<Rightarrow> pyfloat \<Rightarrow> pyfloat" where
  "float_mul a b =
     (if a = NaN \<or> b = NaN then NaN
      else (case (a, b) of
              (Finite x, Finite y) \<Rightarrow> Finite (x * y)
            | _ \<Rightarrow> (let s = float_sign a * float_sign b in
                    if s = 0 then NaN else if 0 < s then PosInf else NegInf)))"

definition float_add :: "pyfloat \<Rightarrow> pyfloat \<Rightarrow> pyfloat" where
  "float_add a b =
     (if a = NaN \<or> b = NaN then NaN
      else (case (a, b) of
              (Finite x, Finite y) \<Rightarrow> Finite (x + y)
            | (Finite x, _) \<Rightarrow> b
            | (_, Finite y) \<Rightarrow> a
            | _ \<Rightarrow> if a = b then a else NaN))"

section \<open>The regular expressions of the amount scanner\<close>

text \<open>
  \<open>match_ci lit s\<close>: the lower-case literal \<open>lit\<close> at the head of \<open>s\<close>, letters in
  either case (\<open>re.I\<close>); the result is the rest of \<open>s\<close>.
\<close>

definition match_ci :: "string \<Rightarrow> string \<Rightarrow> string option" where
  "match_ci lit s =
     (if length lit \<le> length s \<and> lower (take (length lit) s) = lit then Some (drop (length lit) s)
      else None)"

definition is_amount_char :: "char \<Rightarrow> bool" where
  "is_amount_char c = (is_digit c \<or> c = CHR '','')"

text \<open>An optional character at the head of a string, as \<open>\$?\<close> and \<open>\.?\<close> take it.\<close>

definition skip_char :: "char \<Rightarrow> string \<Rightarrow> string" where
  "skip_char x s = (case s of c # cs \<Rightarrow> if c = x then cs else s | [] \<Rightarrow> s)"

text \<open>
  \<open>[:\s]*\$?([\d,]+\.?\d*)\<close> at the head of a string: the group and the rest. The
  classes of neighbouring parts are disjoint, so the greedy match is the only one.
\<close>

definition amount_tail :: "string \<Rightarrow> (string \<times> string) option" where
  "amount_tail s =
     (let s2 = skip_char (CHR ''$'') (dropWhile (\<lambda>c. c = CHR '':'' \<or> is_space c) s);
          run = takeWhile is_amount_char s2;
          s3 = dropWhile is_amount_char s2;
          dot = (case s3 of c # cs \<Rightarrow> if c = CHR ''.'' then [c] else [] | [] \<Rightarrow> []);
          s4 = skip_char (CHR ''.'') s3
      in if run = [] then None
         else Some (run @ dot @ takeWhile is_digit s4, dropWhile is_digit s4))"

text \<open>\<open>A\s*B\<close> followed by the amount tail, for the labels of two words.\<close>

definition two_word_pattern :: "string \<Rightarrow> string \<Rightarrow> string \<Rightarrow> (string \<times> string) option" where
  "two_word_pattern a b s =
     (case match_ci a s of
        None \<Rightarrow> None
      | Some r \<Rightarrow> (case match_ci b (dropWhile is_space r) of None \<Rightarrow> None | Some r' \<Rightarrow> amount_tail r'))"

definition one_word_pattern :: "string \<Rightarrow> string \<Rightarrow> (string \<times> string) option" where
  "one_word_pattern a s = (case match_ci a s of None \<Rightarrow> None | Some r \<Rightarrow> amount_tail r)"

text \<open>\<open>TOTAL_PATTERNS\<close>, in the order of the source, each with its group 1.\<close>

definition TOTAL_PATTERNS :: "(string \<Rightarrow> (string \<times> string) option) list" where
  "TOTAL_PATTERNS =
     [one_word_pattern ''total'',
      two_word_pattern ''grand'' ''total'',
      two_word_pattern ''amount'' ''due'',
      one_word_pattern ''subtotal'']"

text \<open>\<open>DECIMAL_PATTERN\<close>, \<open>[\d,]+\.\d{2}\<close>: the whole match and the rest.\<close>

definition DECIMAL_PATTERN :: "string \<Rightarrow> (string \<times> string) option" where
  "DECIMAL_PATTERN s =
     (let run = takeWhile is_amount_char s in
      if run = [] then None
      else (case dropWhile is_amount_char s of
              c # d1 # d2 # r \<Rightarrow>
                if c = CHR ''.'' \<and> is_digit d1 \<and> is_digit d2 then Some (run @ [c, d1, d2], r) else None
            | _ \<Rightarrow> None))"

text \<open>
  \<open>pattern.finditer(text)\<close>: the leftmost match, then the search goes on behind it.
  The patterns above match at least one character (\<open>amount_tail_shorter\<close>,
  \<open>DECIMAL_PATTERN_shorter\<close>), so the test on the lengths is always true for them.
\<close>

function finditer :: "(string \<Rightarrow> (string \<times> string) option) \<Rightarrow> string \<Rightarrow> string list" where
  "finditer m [] = []"
| "finditer m (c # cs) =
     (case m (c # cs) of
        None \<Rightarrow> finditer m cs
      | Some (g, r) \<Rightarrow> if length r < length (c # cs) then g # finditer m r else [])"
  by pat_completeness auto
termination
  by (relation "measure (\<lambda>(m, s). length s)") auto

definition float_truthy_pos :: "pyfloat option \<Rightarrow> bool" where
  "float_truthy_pos a = (case a of None \<Rightarrow> False | Some f \<Rightarrow> float_truthy f \<and> float_less (Finite 0) f)"

definition labelled_amounts :: "string \<Rightarrow> pyfloat list" where
  "labelled_amounts t =
     concat (map (\<lambda>p. map the (filter float_truthy_pos (map parse_amount (finditer p t)))) TOTAL_PATTERNS)"

definition decimal_amounts :: "string \<Rightarrow> pyfloat list" where
  "decimal_amounts t =
     map the (filter (\<lambda>a. float_truthy_pos a \<and> float_less (the a) (Finite 100000))
                (map parse_amount (finditer DECIMAL_PATTERN t)))"

definition extract_totals_from_text :: "string \<Rightarrow> pyfloat list" where
  "extract_totals_from_text t =
     (let amounts = labelled_amounts t in if amounts = [] then decimal_amounts t else amounts)"

section \<open>The engines\<close>

text \<open>
  The outside world of \<open>PDFExtractor\<close>, one field per library call: the page rasters
  of \<open>pdf2image\<close>, \<open>pytesseract\<close>, \<open>pdfplumber\<close> and the two Gemini calls. An
  \<open>Inl\<close> is a raised exception. \<open>generate_content\<close> and \<open>generate_content_with_image\<close>
  catch every exception and return \<open>None\<close>; \<open>pdfplumber_text\<close> is the whole of
  \<open>_extract_text_pdfplumber\<close>, which joins what the library returns and guards
  nothing. Writing the raster of a page to its temporary file is taken to succeed.
\<close>

type_synonym image = nat

type_synonym table = "string option list list"

datatype prompt = ParsePrompt | TranscribePrompt

record engines =
  ocr_available :: bool
  file_exists :: bool
  file_ext :: string
  file_image :: image
  convert_from_path :: "exn + image list"
  convert_first_page :: "exn + image list"
  image_to_string :: "image \<Rightarrow> exn + string"
  pdfplumber_text :: "exn + string"
  pdfplumber_tables :: "exn + table list"
  generate_content_with_image :: "prompt \<Rightarrow> image \<Rightarrow> string option"
  generate_content :: "string \<Rightarrow> string option"

definition image_exts :: "string list" where
  "image_exts = [''.jpg'', ''.jpeg'', ''.png'', ''.webp'']"

definition join_lines :: "string list \<Rightarrow> string" where
  "join_lines ts = (case ts of [] \<Rightarrow> [] | t # rest \<Rightarrow> t @ concat (map (\<lambda>u. CHR 0x0A # u) rest))"

section \<open>Text recovery (\<open>extract_text\<close> and its helpers)\<close>

fun image_to_string_all :: "engines \<Rightarrow> image list \<Rightarrow> exn + string list" where
  "image_to_string_all E [] = Inr []"
| "image_to_string_all E (img # imgs) =
     (case image_to_string E img of
        Inl e \<Rightarrow> Inl e
      | Inr t \<Rightarrow> (case image_to_string_all E imgs of Inl e \<Rightarrow> Inl e | Inr ts \<Rightarrow> Inr (t # ts)))"

definition extract_text_ocr :: "engines \<Rightarrow> string" where
  "extract_text_ocr E =
     (if \<not> ocr_available E then []
      else (case convert_from_path E of
              Inl e \<Rightarrow> []
            | Inr imgs \<Rightarrow> (case image_to_string_all E imgs of Inl e \<Rightarrow> [] | Inr ts \<Rightarrow> join_lines ts)))"

definition extract_text_from_image :: "engines \<Rightarrow> string" where
  "extract_text_from_image E =
     (if \<not> ocr_available E then []
      else (case image_to_string E (file_image E) of Inl e \<Rightarrow> [] | Inr t \<Rightarrow> t))"

definition extract_text_via_gemini_vision :: "engines \<Rightarrow> image \<Rightarrow> string" where
  "extract_text_via_gemini_vision E img =
     (case generate_content_with_image E TranscribePrompt img of None \<Rightarrow> [] | Some r \<Rightarrow> r)"

definition extract_text_from_pdf_via_gemini_vision :: "engines \<Rightarrow> string" where
  "extract_text_from_pdf_via_gemini_vision E =
     (if \<not> ocr_available E then []
      else (case convert_first_page E of
              Inl e \<Rightarrow> []
            | Inr [] \<Rightarrow> []
            | Inr (img # imgs) \<Rightarrow> extract_text_via_gemini_vision E img))"

text \<open>The methods \<open>extract_receipt_data\<close> and \<open>extract_text\<close> call, for the call log.\<close>

datatype call =
    ParseDirectlyFromImage
  | ParseDirectlyFromPdfImage
  | ExtractText
  | TextPdfplumber
  | TextOcr
  | TextPdfVision
  | TextVision
  | TextFromImage
  | ParseWithGemini
  | ItemsFromTables
  | TotalsFromText

text \<open>\<open>not text or len(text.strip()) < 20\<close>.\<close>

definition short_text :: "string \<Rightarrow> bool" where
  "short_text t = (t = [] \<or> length (strip t) < 20)"

definition quality_error :: string where
  "quality_error = ''Unable to extract text. The document may be scanned with poor quality - please ensure the receipt is clear and legible.''"

definition finish_text :: "string \<Rightarrow> string \<times> bool \<times> string option" where
  "finish_text t = (if short_text t then ([], False, Some quality_error) else (strip t, True, None))"

definition extract_text_pdf :: "engines \<Rightarrow> call list \<times> (exn + string \<times> bool \<times> string option)" where
  "extract_text_pdf E =
     (case pdfplumber_text E of
        Inl e \<Rightarrow> ([TextPdfplumber], Inl e)
      | Inr t1 \<Rightarrow>
          (let (c2, t2) = (if short_text t1 \<and> ocr_available E then ([TextOcr], extract_text_ocr E)
                           else ([], t1));
               (c3, t3) = (if short_text t2 \<and> ocr_available E then
                             (let v = extract_text_from_pdf_via_gemini_vision E in
                              ([TextPdfVision], if v \<noteq> [] \<and> 20 \<le> length (strip v) then v else t2))
                           else ([], t2))
           in (TextPdfplumber # c2 @ c3, Inr (finish_text t3))))"

definition extract_text_image :: "engines \<Rightarrow> call list \<times> (exn + string \<times> bool \<times> string option)" where
  "extract_text_image E =
     (let v = extract_text_via_gemini_vision E (file_image E) in
      if v \<noteq> [] \<and> 20 \<le> length (strip v) then ([TextVision], Inr (finish_text v))
      else if ocr_available E then ([TextVision, TextFromImage], Inr (finish_text (extract_text_from_image E)))
      else ([TextVision], Inr (finish_text [])))"

definition extract_text :: "engines \<Rightarrow> call list \<times> (exn + string \<times> bool \<times> string option)" where
  "extract_text E =
     (if \<not> file_exists E then ([], Inr ([], False, Some ''File not found''))
      else if file_ext E = ''.pdf'' then extract_text_pdf E
      else if file_ext E \<in> set image_exts then extract_text_image E
      else ([], Inr ([], False,
              Some (''Unsupported file type: '' @ file_ext E @ ''. Use PDF, JPG, PNG, or WEBP.''))))"

section \<open>Table extraction (\<open>_extract_items_from_tables\<close>)\<close>

definition cell_str :: "string option \<Rightarrow> string" where
  "cell_str c = (case c of None \<Rightarrow> [] | Some s \<Rightarrow> s)"

text \<open>\<open>dict(zip(headers, cells)).get(k, d)\<close>: of two equal headers the later one counts.\<close>

definition row_get :: "(string \<times> string) list \<Rightarrow> string \<Rightarrow> string \<Rightarrow> string" where
  "row_get kvs k d = (case map_of (rev kvs) k of Some v \<Rightarrow> v | None \<Rightarrow> d)"

definition truthy_amount :: "pyfloat option \<Rightarrow> pyfloat option" where
  "truthy_amount a = (case a of None \<Rightarrow> None | Some f \<Rightarrow> if float_truthy f then Some f else None)"

definition table_row_item :: "string list \<Rightarrow> string option list \<Rightarrow> line_item option" where
  "table_row_item headers row =
     (let row_dict = zip headers (map (\<lambda>c. strip (cell_str c)) row);
          item = row_get row_dict ''item'' (row_get row_dict ''description'' (row_get row_dict ''name'' []));
          price = truthy_amount (parse_amount (row_get row_dict ''price'' (row_get row_dict ''unit price'' [])));
          qty = truthy_amount (parse_amount (row_get row_dict ''qty'' (row_get row_dict ''quantity'' ''1'')));
          total = truthy_amount (parse_amount (row_get row_dict ''total'' (row_get row_dict ''amount'' [])))
      in if item \<noteq> [] \<or> total \<noteq> None then
           Some \<lparr>Date = None,
                 Item = (if item = [] then ''Unknown'' else item),
                 Price = (case price of None \<Rightarrow> PInt 0 | Some p \<Rightarrow> PFloat p),
                 Qty = (case qty of None \<Rightarrow> PInt 1 | Some q \<Rightarrow> PFloat q),
                 Total = (case total of
                            Some t \<Rightarrow> PFloat t
                          | None \<Rightarrow> (case price of
                                       None \<Rightarrow> PInt 0
                                     | Some p \<Rightarrow> PFloat (case qty of None \<Rightarrow> p | Some q \<Rightarrow> float_mul p q)))\<rparr>
         else None)"

definition table_items :: "table \<Rightarrow> line_item list" where
  "table_items t =
     (case t of
        h # r # rs \<Rightarrow> List.map_filter (table_row_item (map (\<lambda>c. lower (strip (cell_str c))) h)) (r # rs)
      | _ \<Rightarrow> [])"

definition extract_items_from_tables :: "engines \<Rightarrow> exn + line_item list" where
  "extract_items_from_tables E =
     (case pdfplumber_tables E of Inl e \<Rightarrow> Inl e | Inr ts \<Rightarrow> Inr (concat (map table_items ts)))"

section \<open>The AI stages\<close>

definition parse_receipt_directly_from_image :: "pylib \<Rightarrow> engines \<Rightarrow> image \<Rightarrow> exn + line_item list option" where
  "parse_receipt_directly_from_image L E img =
     (case generate_content_with_image E ParsePrompt img of
        None \<Rightarrow> Inr None
      | Some r \<Rightarrow> if r = [] then Inr None else parse_gemini_json_response L r)"

text \<open>The loop over the pages; an exception leaves it.\<close>

fun pages_items :: "pylib \<Rightarrow> engines \<Rightarrow> image list \<Rightarrow> exn + line_item list" where
  "pages_items L E [] = Inr []"
| "pages_items L E (img # imgs) =
     (case parse_receipt_directly_from_image L E img of
        Inl e \<Rightarrow> Inl e
      | Inr page \<Rightarrow>
          (case pages_items L E imgs of
             Inl e \<Rightarrow> Inl e
           | Inr rest \<Rightarrow> Inr ((case page of None \<Rightarrow> [] | Some its \<Rightarrow> its) @ rest)))"

text \<open>\<open>except Exception\<close> turns every exception of the loop into \<open>None\<close>.\<close>

definition parse_receipt_directly_from_pdf_image :: "pylib \<Rightarrow> engines \<Rightarrow> line_item list option" where
  "parse_receipt_directly_from_pdf_image L E =
     (if \<not> ocr_available E then None
      else (case convert_from_path E of
              Inl e \<Rightarrow> None
            | Inr imgs \<Rightarrow>
                if imgs = [] then None
                else (case pages_items L E imgs of
                        Inl e \<Rightarrow> None
                      | Inr its \<Rightarrow> if its = [] then None else Some its)))"

definition parse_receipt_with_gemini :: "pylib \<Rightarrow> engines \<Rightarrow> string \<Rightarrow> exn + line_item list option" where
  "parse_receipt_with_gemini L E t =
     (case generate_content E t of
        None \<Rightarrow> Inr None
      | Some r \<Rightarrow> if r = [] then Inr None else parse_gemini_json_response L r)"

section \<open>The pipeline (\<open>extract_receipt_data\<close>)\<close>

record outcome =
  items :: "line_item list"
  success :: bool
  error_msg :: "string option"
  extraction_method :: string

definition amounts_error :: string where
  "amounts_error = ''Unable to extract amounts from the receipt due to quality or format issues. Please ensure the receipt is clear and contains recognizable price/total information.''"

text \<open>\<open>if "Date" not in item or not item["Date"]: item["Date"] = date_str\<close>.\<close>

definition ensure_date :: "pylib \<Rightarrow> line_item \<Rightarrow> line_item" where
  "ensure_date L it =
     (case Date it of
        None \<Rightarrow> it\<lparr>Date := Some (strftime_dmy (today L))\<rparr>
      | Some d \<Rightarrow> if d = [] then it\<lparr>Date := Some (strftime_dmy (today L))\<rparr> else it)"

text \<open>What a stage that has items leaves in \<open>items\<close> and \<open>method\<close>, before the loop over the dates.\<close>

definition produced :: "line_item list \<Rightarrow> string \<Rightarrow> outcome" where
  "produced its m = \<lparr>items = its, success = True, error_msg = None, extraction_method = m\<rparr>"

text \<open>\<open>not items\<close> holds of \<open>None\<close> and of the empty list alike.\<close>

definition items_or_empty :: "line_item list option \<Rightarrow> line_item list" where
  "items_or_empty r = (case r of None \<Rightarrow> [] | Some its \<Rightarrow> its)"

definition regex_stage :: "pylib \<Rightarrow> string \<Rightarrow> outcome" where
  "regex_stage L t =
     (case extract_totals_from_text t of
        [] \<Rightarrow> \<lparr>items = [], success = False, error_msg = Some amounts_error, extraction_method = ''failed''\<rparr>
      | a # as \<Rightarrow>
          produced [\<lparr>Date = Some (strftime_dmy (today L)), Item = ''Receipt Total'',
                      Price = PFloat a, Qty = PInt 1, Total = PFloat a\<rparr>] ''regex_fallback'')"

definition tables_stage :: "pylib \<Rightarrow> engines \<Rightarrow> string \<Rightarrow> call list \<times> (exn + outcome)" where
  "tables_stage L E t =
     (if file_ext E = ''.pdf'' then
        (case extract_items_from_tables E of
           Inl e \<Rightarrow> ([ItemsFromTables], Inl e)
         | Inr its \<Rightarrow>
             if its \<noteq> [] then ([ItemsFromTables], Inr (produced its ''pdfplumber_tables''))
             else ([ItemsFromTables, TotalsFromText], Inr (regex_stage L t)))
      else ([TotalsFromText], Inr (regex_stage L t)))"

definition text_stage :: "pylib \<Rightarrow> engines \<Rightarrow> call list \<times> (exn + outcome)" where
  "text_stage L E =
     (case extract_text E of
        (ct, Inl e) \<Rightarrow> (ExtractText # ct, Inl e)
      | (ct, Inr (t, ok, err)) \<Rightarrow>
          if \<not> ok then
            (ExtractText # ct,
             Inr \<lparr>items = [], success = False, error_msg = err, extraction_method = ''text_extraction_failed''\<rparr>)
          else
            (case parse_receipt_with_gemini L E t of
               Inl e \<Rightarrow> (ExtractText # ct @ [ParseWithGemini], Inl e)
             | Inr r \<Rightarrow>
                 if items_or_empty r \<noteq> [] then
                   (ExtractText # ct @ [ParseWithGemini], Inr (produced (items_or_empty r) ''gemini_text''))
                 else (let (c3, r3) = tables_stage L E t in (ExtractText # ct @ [ParseWithGemini] @ c3, r3))))"

definition vision_stage :: "pylib \<Rightarrow> engines \<Rightarrow> call list \<times> (exn + line_item list option)" where
  "vision_stage L E =
     (if file_ext E \<in> set image_exts then
        ([ParseDirectlyFromImage], parse_receipt_directly_from_image L E (file_image E))
      else if file_ext E = ''.pdf'' \<and> ocr_available E then
        ([ParseDirectlyFromPdfImage], Inr (parse_receipt_directly_from_pdf_image L E))
      else ([], Inr None))"

text \<open>
  The stages of \<open>extract_receipt_data\<close> up to its loop over the dates: the outcome
  holds the items as the stage that stopped the chain made them.
\<close>

definition run_stages :: "pylib \<Rightarrow> engines \<Rightarrow> call list \<times> (exn + outcome)" where
  "run_stages L E =
     (case vision_stage L E of
        (c1, Inl e) \<Rightarrow> (c1, Inl e)
      | (c1, Inr r) \<Rightarrow>
          if items_or_empty r \<noteq> [] then (c1, Inr (produced (items_or_empty r) ''gemini_vision''))
          else (let (c2, r2) = text_stage L E in (c1 @ c2, r2)))"

text \<open>
  The loop over the dates ends the function; the two returns of a failure leave
  before it.
\<close>

definition date_loop :: "pylib \<Rightarrow> outcome \<Rightarrow> outcome" where
  "date_loop L out = out\<lparr>items := map (ensure_date L) (items out)\<rparr>"

definition extract_receipt_data :: "pylib \<Rightarrow> engines \<Rightarrow> call list \<times> (exn + outcome)" where
  "extract_receipt_data L E =
     (case run_stages L E of
        (c, Inl e) \<Rightarrow> (c, Inl e)
      | (c, Inr out) \<Rightarrow> (c, Inr (if success out then date_loop L out else out)))"

section \<open>One receipt of a batch (\<open>_process_single_receipt\<close>)\<close>

text \<open>
  \<open>str(e)\<close>. The messages of \<open>ValueError\<close> and \<open>TypeError\<close> reach no report: the
  model raises them in \<open>float\<close> only, where the callers catch them.
\<close>

fun exn_str :: "exn \<Rightarrow> string" where
  "exn_str (OtherError m) = m"
| "exn_str OverflowError = ''int too large to convert to float''"
| "exn_str TimeoutError = []"
| "exn_str ValueError = []"
| "exn_str TypeError = []"

text \<open>
  A queued attachment and what happens to it: the engines as they answer for its
  file, the name \<open>NamedTemporaryFile\<close> picks, whether \<open>get_file\<close>, the download,
  \<open>update_soa\<close> and the Drive upload raise, and whether the extraction outlasts the
  120 seconds of \<open>asyncio.wait_for\<close>.
\<close>

record queued =
  q_suffix :: string
  q_engines :: engines
  q_tmp :: string
  get_file_raises :: "exn option"
  download_raises :: "exn option"
  times_out :: bool
  update_soa_raises :: "exn option"
  upload_raises :: "exn option"

text \<open>The extractor runs on the temporary file, which exists and ends in the suffix.\<close>

definition engines_of :: "queued \<Rightarrow> engines" where
  "engines_of q = (q_engines q)\<lparr>file_exists := True, file_ext := q_suffix q\<rparr>"

text \<open>
  The state is the set of temporary files on disk. The file is created before the
  download, and the \<open>try\<close> that unlinks it on an exception starts after the download.
\<close>

definition process_single_receipt :: "pylib \<Rightarrow> queued \<Rightarrow> string set \<Rightarrow> string set \<times> (exn + outcome \<times> string)" where
  "process_single_receipt L q files =
     (case get_file_raises q of
        Some e \<Rightarrow> (files, Inl e)
      | None \<Rightarrow>
          (let files1 = insert (q_tmp q) files in
           case download_raises q of
             Some e \<Rightarrow> (files1, Inl e)
           | None \<Rightarrow>
               if times_out q then (files1 - {q_tmp q}, Inl TimeoutError)
               else (case snd (extract_receipt_data L (engines_of q)) of
                       Inl e \<Rightarrow> (files1 - {q_tmp q}, Inl e)
                     | Inr out \<Rightarrow> (files1, Inr (out, q_tmp q)))))"

section \<open>Aggregation of a batch (\<open>_process_media_group_receipts\<close>)\<close>

text \<open>
  A summary line is kept as its parts; the layout of the amount (\<open>${amt:,.2f}\<close>) is
  not modelled.
\<close>

datatype summary_line = AmountLine string string pyfloat | DashLine string string

record config =
  sheets_configured :: bool
  sheets_init_raises :: "exn option"
  drive_folder_set :: bool

record batch_state =
  all_items :: "line_item list"
  all_summary_lines :: "summary_line list"
  total_amount :: pyfloat
  methods_used :: "string set"
  errors :: "string list"
  drive_uploaded :: bool
  drive_error :: "string option"
  tmp_files :: "string set"
  soa_rows :: "line_item list"

definition initial_batch_state :: "string set \<Rightarrow> batch_state" where
  "initial_batch_state files =
     \<lparr>all_items = [], all_summary_lines = [], total_amount = Finite 0, methods_used = {},
      errors = [], drive_uploaded = False, drive_error = None, tmp_files = files, soa_rows = []\<rparr>"

text \<open>
  The loop over the items of one receipt. \<open>float(total)\<close> may raise; \<open>TypeError\<close> and
  \<open>ValueError\<close> give the dash line, any other exception leaves the loop with what
  was added so far.
\<close>

fun summarize :: "line_item list \<Rightarrow> batch_state \<Rightarrow> batch_state \<times> exn option" where
  "summarize [] st = (st, None)"
| "summarize (it # its) st =
     (let date_bought = strip (case Date it of None \<Rightarrow> [] | Some d \<Rightarrow> d);
          name = strip (Item it)
      in case py_float (Total it) of
           Inr amt \<Rightarrow>
             summarize its (st\<lparr>total_amount := float_add (total_amount st) amt,
                                all_summary_lines := all_summary_lines st @ [AmountLine date_bought name amt]\<rparr>)
         | Inl e \<Rightarrow>
             if e = TypeError \<or> e = ValueError then
               summarize its (st\<lparr>all_summary_lines := all_summary_lines st @ [DashLine date_bought name]\<rparr>)
             else (st, Some e))"

definition receipt_label :: "nat \<Rightarrow> string" where
  "receipt_label i = ''Receipt '' @ show_nat (i + 1) @ '': ''"

definition add_error :: "nat \<Rightarrow> string \<Rightarrow> batch_state \<Rightarrow> batch_state" where
  "add_error i msg st = st\<lparr>errors := errors st @ [receipt_label i @ msg]\<rparr>"

text \<open>\<open>except asyncio.TimeoutError\<close>, then \<open>except Exception\<close>.\<close>

definition record_exception :: "nat \<Rightarrow> exn \<Rightarrow> batch_state \<Rightarrow> batch_state" where
  "record_exception i e st = (if e = TimeoutError then add_error i ''Timed out'' st else add_error i (exn_str e) st)"

definition upload_to_drive :: "config \<Rightarrow> queued \<Rightarrow> string \<Rightarrow> batch_state \<Rightarrow> batch_state" where
  "upload_to_drive C q tmp st =
     (if drive_folder_set C \<and> tmp \<noteq> [] \<and> tmp \<in> tmp_files st then
        (case upload_raises q of
           None \<Rightarrow> st\<lparr>drive_uploaded := True\<rparr>
         | Some e \<Rightarrow> st\<lparr>drive_error := (case drive_error st of
                                             None \<Rightarrow> Some (exn_str e)
                                           | Some d \<Rightarrow> if d = [] then Some (exn_str e) else Some d)\<rparr>)
      else st)"

text \<open>The \<open>finally\<close> of the loop body: \<open>if tmp_path: os.unlink(tmp_path)\<close>.\<close>

definition unlink_tmp :: "string \<Rightarrow> batch_state \<Rightarrow> batch_state" where
  "unlink_tmp tmp st = (if tmp \<noteq> [] then st\<lparr>tmp_files := tmp_files st - {tmp}\<rparr> else st)"

text \<open>The body of the loop for the receipt at position \<open>i\<close> (from 0).\<close>

definition process_receipt :: "pylib \<Rightarrow> config \<Rightarrow> nat \<Rightarrow> queued \<Rightarrow> batch_state \<Rightarrow> batch_state" where
  "process_receipt L C i q st =
     (case process_single_receipt L q (tmp_files st) of
        (files, Inl e) \<Rightarrow> record_exception i e (st\<lparr>tmp_files := files\<rparr>)
      | (files, Inr (out, tmp)) \<Rightarrow>
          (let st1 = st\<lparr>tmp_files := files\<rparr> in
           if success out \<and> items out \<noteq> [] then
             (case update_soa_raises q of
                Some e \<Rightarrow> unlink_tmp tmp (record_exception i e st1)
              | None \<Rightarrow>
                  (let st2 = st1\<lparr>soa_rows := soa_rows st1 @ items out,
                                  all_items := all_items st1 @ items out,
                                  methods_used := insert (extraction_method out) (methods_used st1)\<rparr>
                   in case summarize (items out) st2 of
                        (st3, Some e) \<Rightarrow> unlink_tmp tmp (record_exception i e st3)
                      | (st3, None) \<Rightarrow> unlink_tmp tmp (upload_to_drive C q tmp st3)))
           else
             unlink_tmp tmp
               (add_error i (case error_msg out of
                               None \<Rightarrow> ''No data extracted''
                             | Some m \<Rightarrow> if m = [] then ''No data extracted'' else m) st1)))"

fun process_receipts :: "pylib \<Rightarrow> config \<Rightarrow> nat \<Rightarrow> queued list \<Rightarrow> batch_state \<Rightarrow> batch_state" where
  "process_receipts L C i [] st = st"
| "process_receipts L C i (q # qs) st = process_receipts L C (Suc i) qs (process_receipt L C i q st)"

text \<open>The message sent at the end, by its parts.\<close>

datatype report =
    SheetsNotConfigured
  | Processed nat "summary_line list" pyfloat "string set" "string list"
  | AllFailed "string list"
  | NoData
  | ErrorReport string

definition final_report :: "nat \<Rightarrow> batch_state \<Rightarrow> report" where
  "final_report n st =
     (if all_summary_lines st \<noteq> [] then
        Processed n (all_summary_lines st) (total_amount st) (methods_used st) (errors st)
      else if errors st \<noteq> [] then AllFailed (errors st)
      else NoData)"

definition process_media_group_receipts :: "pylib \<Rightarrow> config \<Rightarrow> queued list \<Rightarrow> string set \<Rightarrow> batch_state \<times> report" where
  "process_media_group_receipts L C qs files =
     (if \<not> sheets_configured C then (initial_batch_state files, SheetsNotConfigured)
      else (case sheets_init_raises C of
              Some e \<Rightarrow> (initial_batch_state files, ErrorReport (exn_str e))
            | None \<Rightarrow>
                (let st = process_receipts L C 0 qs (initial_batch_state files) in
                 (st, final_report (length qs) st))))"

section \<open>A single receipt outside an album (\<open>handle_receipt_extraction\<close>)\<close>

text \<open>
  The replies by their kind. The Drive upload, which reads the temporary file and
  guards its own exceptions, and the wording of the messages are left out.
\<close>

datatype reply =
    ReplyNotConfigured
  | ReplyPleaseSend
  | ReplyReceived
  | ReplyTimedOut
  | ReplyFailure "string option"
  | ReplyExtracted "summary_line list" pyfloat string
  | ReplyExtractedPlain
  | ReplyError exn

definition handle_receipt_extraction :: "pylib \<Rightarrow> config \<Rightarrow> queued option \<Rightarrow> string set \<Rightarrow> string set \<times> reply list" where
  "handle_receipt_extraction L C qo files =
     (if \<not> sheets_configured C then (files, [ReplyNotConfigured])
      else (case qo of
        None \<Rightarrow> (files, [ReplyPleaseSend])
      | Some q \<Rightarrow>
          (case get_file_raises q of
             Some e \<Rightarrow> (files, [ReplyError e])
           | None \<Rightarrow>
               (let files1 = insert (q_tmp q) files in
                case download_raises q of
                  Some e \<Rightarrow> (files1, [ReplyReceived, ReplyError e])
                | None \<Rightarrow>
                    (let files2 = files1 - {q_tmp q} in
                     if times_out q then (files2, [ReplyReceived, ReplyTimedOut])
                     else (case snd (extract_receipt_data L (engines_of q)) of
                       Inl e \<Rightarrow> (files2, [ReplyReceived, ReplyError e])
                     | Inr out \<Rightarrow>
                         if \<not> success out then (files2, [ReplyReceived, ReplyFailure (error_msg out)])
                         else (case sheets_init_raises C of
                           Some e \<Rightarrow> (files2, [ReplyReceived, ReplyError e])
                         | None \<Rightarrow>
                             (case update_soa_raises q of
                                Some e \<Rightarrow> (files2, [ReplyReceived, ReplyError e])
                              | None \<Rightarrow>
                                  (case summarize (items out) (initial_batch_state files1) of
                                     (st, Some e) \<Rightarrow> (files2, [ReplyReceived, ReplyError e])
                                   | (st, None) \<Rightarrow>
                                       if all_summary_lines st \<noteq> [] then
                                         (files2, [ReplyReceived,
                                            ReplyExtracted (all_summary_lines st) (total_amount st) (extraction_method out)])
                                       else (files2, [ReplyReceived, ReplyExtractedPlain]))))))))))"

section \<open>The album collector (\<open>handle_document\<close>, \<open>_flush_media_group\<close>)\<close>

text \<open>A document message, by what \<open>handle_document\<close> reads of it.\<close>

record doc_message =
  chat_id :: int
  file_id :: string
  file_name :: "string option"
  mime_type :: "string option"
  caption :: "string option"
  reply_to_text :: "string option"
  media_group_id :: "string option"

text \<open>\<open>sub in s\<close>.\<close>

fun contains :: "string \<Rightarrow> string \<Rightarrow> bool" where
  "contains sub [] = (sub = [])"
| "contains sub (c # cs) = (take (length sub) (c # cs) = sub \<or> contains sub cs)"

text \<open>
  \<open>Path(name).suffix\<close>: from the last dot of the last component, unless that dot is its
  first or last character. The component is what follows the last slash; names that
  end in a slash or in \<open>/.\<close>, which \<open>pathlib\<close> normalises first, are left aside.
\<close>

definition path_suffix :: "string \<Rightarrow> string" where
  "path_suffix p =
     (let name = rev (takeWhile (\<lambda>c. c \<noteq> CHR ''/'') (rev p));
          after = rev (takeWhile (\<lambda>c. c \<noteq> CHR ''.'') (rev name))
      in if CHR ''.'' \<in> set name \<and> length after + 1 < length name \<and> after \<noteq> [] then CHR ''.'' # after
         else [])"

definition infer_suffix_from_mime :: "string \<Rightarrow> string" where
  "infer_suffix_from_mime mt =
     (if mt = [] then []
      else (let m = lower mt in
            if contains ''image/jpeg'' m \<or> contains ''image/jpg'' m then ''.jpg''
            else if contains ''image/png'' m then ''.png''
            else if contains ''image/webp'' m then ''.webp''
            else if contains ''application/pdf'' m then ''.pdf''
            else []))"

definition is_for_receipt_extraction :: "doc_message \<Rightarrow> bool" where
  "is_for_receipt_extraction u =
     (contains ''/pdf'' (lower (case caption u of None \<Rightarrow> [] | Some c \<Rightarrow> c))
      \<or> (case reply_to_text u of None \<Rightarrow> False | Some t \<Rightarrow> contains ''/pdf'' (lower t)))"

text \<open>
  The registry \<open>_pending_media_groups\<close> and the sleeping \<open>_flush_media_group\<close> tasks,
  each with the time it wakes at and the album it is for. Time is the time stamp of
  the events; a task created at \<open>t\<close> wakes at \<open>t + _MEDIA_GROUP_DELAY\<close>. \<open>notices\<close>
  lists the messages \<open>Processing n receipt(s)...\<close> that were sent, with the time, the
  chat and \<open>n\<close>; \<open>sealed\<close> lists the calls of \<open>_process_media_group_receipts\<close>, with
  the time, the album of the task that makes the call, the chat and the items.
\<close>

record album_entry =
  entry_file_id :: string
  entry_suffix :: string

record pending_group =
  pg_chat_id :: int
  pg_items :: "album_entry list"

record collector =
  pending :: "(string \<times> pending_group) list"
  tasks :: "(rat \<times> string) list"
  notices :: "(rat \<times> int \<times> nat) list"
  sealed :: "(rat \<times> string \<times> int \<times> album_entry list) list"

definition MEDIA_GROUP_DELAY :: rat where
  "MEDIA_GROUP_DELAY = 5 / 2"

definition initial_collector :: collector where
  "initial_collector = \<lparr>pending = [], tasks = [], notices = [], sealed = []\<rparr>"

datatype route = Queued | ExtractNow string | UploadToDrive | Refused

definition doc_ext :: "doc_message \<Rightarrow> string" where
  "doc_ext u =
     (let ext = lower (path_suffix (case file_name u of None \<Rightarrow> [] | Some n \<Rightarrow> n)) in
      if ext = [] then (case mime_type u of None \<Rightarrow> [] | Some m \<Rightarrow> if m = [] then [] else infer_suffix_from_mime m)
      else ext)"

definition receipt_exts :: "string list" where
  "receipt_exts = [''.pdf'', ''.jpg'', ''.jpeg'', ''.png'', ''.webp'']"

definition append_entry :: "string \<Rightarrow> album_entry \<Rightarrow> (string \<times> pending_group) list \<Rightarrow> (string \<times> pending_group) list" where
  "append_entry g e reg = map (\<lambda>(k, pg). if k = g then (k, pg\<lparr>pg_items := pg_items pg @ [e]\<rparr>) else (k, pg)) reg"

definition handle_document :: "rat \<Rightarrow> doc_message \<Rightarrow> collector \<Rightarrow> collector \<times> route" where
  "handle_document now u st =
     (let ext = doc_ext u;
          mg = (case media_group_id u of None \<Rightarrow> [] | Some g \<Rightarrow> g);
          is_receipt = (ext \<in> set receipt_exts
                        \<and> (is_for_receipt_extraction u \<or> (mg \<noteq> [] \<and> mg \<in> fst ` set (pending st))));
          suffix = (if ext = [] then ''.jpg'' else ext)
      in if is_receipt then
           (if mg \<noteq> [] then
              (let st1 = (if mg \<notin> fst ` set (pending st) then
                            st\<lparr>pending := pending st @ [(mg, \<lparr>pg_chat_id = chat_id u, pg_items = []\<rparr>)],
                               tasks := tasks st @ [(now + MEDIA_GROUP_DELAY, mg)]\<rparr>
                          else st)
               in (st1\<lparr>pending := append_entry mg \<lparr>entry_file_id = file_id u, entry_suffix = suffix\<rparr> (pending st1)\<rparr>,
                   Queued))
            else (st, ExtractNow suffix))
         else if ext \<in> set [''.pdf'', ''.doc'', ''.docx''] then (st, UploadToDrive)
         else (st, Refused))"

text \<open>
  \<open>_flush_media_group\<close> after its sleep: the album is popped from the registry; for a
  batch with at least one entry the notice is sent and then the aggregation is
  called. \<open>send\<close> tells whether \<open>context.bot.send_message\<close> raises for a chat and a
  number of receipts: when it does, the exception ends the task, and the batch,
  which is in the registry no more, never reaches the aggregation.
\<close>

definition flush_media_group :: "(int \<Rightarrow> nat \<Rightarrow> exn option) \<Rightarrow> rat \<Rightarrow> string \<Rightarrow> collector \<Rightarrow> collector" where
  "flush_media_group send now g st =
     (case map_of (pending st) g of
        None \<Rightarrow> st
      | Some pg \<Rightarrow>
          (let st1 = st\<lparr>pending := filter (\<lambda>(k, v). k \<noteq> g) (pending st)\<rparr> in
           if pg_items pg = [] then st1
           else (case send (pg_chat_id pg) (length (pg_items pg)) of
                   Some e \<Rightarrow> st1
                 | None \<Rightarrow>
                     st1\<lparr>notices := notices st1 @ [(now, pg_chat_id pg, length (pg_items pg))],
                         sealed := sealed st1 @ [(now, g, pg_chat_id pg, pg_items pg)]\<rparr>)))"

text \<open>
  The event loop: before a message that arrives at \<open>t\<close> is handled, the tasks that
  wake up to \<open>t\<close> have run, each at its own time; \<open>drain\<close> lets the remaining
  tasks run.
\<close>

definition run_due :: "(int \<Rightarrow> nat \<Rightarrow> exn option) \<Rightarrow> rat \<Rightarrow> collector \<Rightarrow> collector" where
  "run_due send t st =
     foldl (\<lambda>s (w, g). flush_media_group send w g s)
       (st\<lparr>tasks := filter (\<lambda>(w, g). \<not> w \<le> t) (tasks st)\<rparr>)
       (filter (\<lambda>(w, g). w \<le> t) (tasks st))"

definition drain :: "(int \<Rightarrow> nat \<Rightarrow> exn option) \<Rightarrow> collector \<Rightarrow> collector" where
  "drain send st = foldl (\<lambda>s (w, g). flush_media_group send w g s) (st\<lparr>tasks := []\<rparr>) (tasks st)"

fun deliver :: "(int \<Rightarrow> nat \<Rightarrow> exn option) \<Rightarrow> (rat \<times> doc_message) list \<Rightarrow> collector \<Rightarrow> collector" where
  "deliver send [] st = st"
| "deliver send ((t, u) # evs) st = deliver send evs (fst (handle_document t u (run_due send t st)))"

section \<open>Properties of an outcome\<close>

text \<open>
  The two shapes of an outcome: a success with items, no error and a method of one of
  the stages, or a failure with no item and an error message.
\<close>

definition outcome_ok :: "outcome \<Rightarrow> bool" where
  "outcome_ok out =
     (if success out then
        items out \<noteq> [] \<and> error_msg out = None
        \<and> extraction_method out \<noteq> ''failed'' \<and> extraction_method out \<noteq> ''text_extraction_failed''
      else items out = [] \<and> error_msg out \<noteq> None)"

section \<open>Example inputs\<close>

definition coffee_response :: string where
  "coffee_response = ''[{\"Item\":\"Coffee\",\"Price\":4.5,\"Qty\":1,\"Total\":4.5}]''"

definition strings_response :: string where
  "strings_response = ''[{\"Item\":\"Tea\",\"Total\":\"1,234.56\"},{\"Item\":\"Fee\",\"Total\":\"N/A\"}]''"

definition bad_price_response :: string where
  "bad_price_response = ''[{\"Item\":\"Tea\",\"Price\":\"abc\",\"Qty\":0}]''"

definition example_decode :: "string \<Rightarrow> pyval option" where
  "example_decode s =
     (if s = coffee_response then
        Some (PList [PDict [(''Item'', PStr ''Coffee''), (''Price'', PFloat (Finite 4.5)),
                            (''Qty'', PInt 1), (''Total'', PFloat (Finite 4.5))]])
      else if s = strings_response then
        Some (PList [PDict [(''Item'', PStr ''Tea''), (''Total'', PStr ''1,234.56'')],
                     PDict [(''Item'', PStr ''Fee''), (''Total'', PStr ''N/A'')]])
      else if s = bad_price_response then
        Some (PList [PDict [(''Item'', PStr ''Tea''), (''Price'', PStr ''abc''), (''Qty'', PInt 0)]])
      else None)"

definition example_lib :: pylib where
  "example_lib = \<lparr>today = \<lparr>day = 4, month = 11, year = 2026\<rparr>, repr_other = (\<lambda>v. []),
                   json_decode = example_decode\<rparr>"

text \<open>An image for which no engine returns anything, and variations of it.\<close>

definition silent_image :: engines where
  "silent_image =
     \<lparr>ocr_available = True, file_exists = True, file_ext = ''.jpg'', file_image = 0,
      convert_from_path = Inr [], convert_first_page = Inr [],
      image_to_string = (\<lambda>i. Inr []), pdfplumber_text = Inr [], pdfplumber_tables = Inr [],
      generate_content_with_image = (\<lambda>p i. None), generate_content = (\<lambda>t. None)\<rparr>"

definition coffee_image :: engines where
  "coffee_image =
     silent_image\<lparr>generate_content_with_image :=
                    (\<lambda>p i. if p = ParsePrompt then Some coffee_response else None)\<rparr>"



text \<open>A PDF with a text layer and one table, on a machine without OCR.\<close>

definition table_pdf :: engines where
  "table_pdf =
     silent_image\<lparr>ocr_available := False, file_ext := ''.pdf'',
                    pdfplumber_text := Inr ''Corner shop receipt with a table'',
                    pdfplumber_tables := Inr [[[Some ''Item'', Some ''Total''], [Some ''Tea'', Some ''1,234.56'']]]\<rparr>"

definition configured :: config where
  "configured = \<lparr>sheets_configured = True, sheets_init_raises = None, drive_folder_set = True\<rparr>"

definition coffee_queued :: queued where
  "coffee_queued =
     \<lparr>q_suffix = ''.jpg'', q_engines = coffee_image, q_tmp = ''/tmp/tmpa.jpg'', get_file_raises = None,
      download_raises = None, times_out = False, update_soa_raises = None, upload_raises = None\<rparr>"

text \<open>Entries of a decoded array that are dicts, and integers \<open>float\<close> cannot hold.\<close>

fun is_dict :: "pyval \<Rightarrow> bool" where
  "is_dict (PDict kvs) = True"
| "is_dict v = False"

definition overflows :: "pyval \<Rightarrow> bool" where
  "overflows v = (case v of PInt n \<Rightarrow> float_int_limit \<le> \<bar>n\<bar> | _ \<Rightarrow> False)"

definition two_texts_image :: engines where
  "two_texts_image =
     silent_image\<lparr>image_to_string := (\<lambda>i. Inr ''OCR text: Total 42.50 paid''),
                    generate_content_with_image :=
                      (\<lambda>p i. if p = TranscribePrompt then Some ''Vision text: Total 42.50 paid'' else None)\<rparr>"

definition spaced_image :: engines where
  "spaced_image = silent_image\<lparr>image_to_string := (\<lambda>i. Inr ''a                  b'')\<rparr>"

definition three_receipts :: "queued list" where
  "three_receipts =
     [coffee_queued,
      coffee_queued\<lparr>times_out := True, q_tmp := ''/tmp/tmpb.jpg''\<rparr>,
      coffee_queued\<lparr>q_tmp := ''/tmp/tmpc.jpg''\<rparr>]"

definition failed_download :: queued where
  "failed_download = coffee_queued\<lparr>download_raises := Some (OtherError ''Connection reset'')\<rparr>"

definition album_first :: doc_message where
  "album_first =
     \<lparr>chat_id = 7, file_id = ''f1'', file_name = Some ''lunch.PDF'', mime_type = None,
      caption = Some ''here you go /pdf'', reply_to_text = None, media_group_id = Some ''g1''\<rparr>"

definition album_events :: "(rat \<times> doc_message) list" where
  "album_events =
     [(0, album_first),
      (1, album_first\<lparr>file_id := ''f2'', file_name := None, mime_type := Some ''image/png'', caption := None\<rparr>),
      (12 / 5, album_first\<lparr>file_id := ''f3'', file_name := Some ''taxi.jpeg'', caption := None\<rparr>)]"


definition notice_fails :: "int \<Rightarrow> nat \<Rightarrow> exn option" where
  "notice_fails c n = Some (OtherError ''Timed out'')"




section \<open>Notions the properties are stated with\<close>

text \<open>
  The text recovery as the specification words it, for the comparison with
  \<open>extract_text\<close>: the sub-stages in the order text layer (PDF only), OCR, vision
  transcription, and the first text with at least 20 characters that are not
  whitespace.
\<close>

definition non_whitespace :: "string \<Rightarrow> nat" where
  "non_whitespace t = length (filter (\<lambda>c. \<not> is_space c) t)"

definition spec_text_recovery :: "engines \<Rightarrow> string option" where
  "spec_text_recovery E =
     find (\<lambda>t. 20 \<le> non_whitespace t)
       ((if file_ext E = ''.pdf'' then [case pdfplumber_text E of Inl e \<Rightarrow> [] | Inr t \<Rightarrow> t] else [])
        @ [if file_ext E = ''.pdf'' then extract_text_ocr E else extract_text_from_image E,
           if file_ext E = ''.pdf'' then extract_text_from_pdf_via_gemini_vision E
           else extract_text_via_gemini_vision E (file_image E)])"

definition text_failure :: "string \<times> bool \<times> string option" where
  "text_failure = ([], False, Some quality_error)"

text \<open>
  What one receipt adds to a batch, read off the loop body: the message of its
  error entry, if it gets one, and the items that go into \<open>all_items\<close>.
\<close>

definition caught_message :: "exn \<Rightarrow> string" where
  "caught_message e = (if e = TimeoutError then ''Timed out'' else exn_str e)"

definition receipt_error :: "pylib \<Rightarrow> queued \<Rightarrow> string option" where
  "receipt_error L q =
     (case snd (process_single_receipt L q {}) of
        Inl e \<Rightarrow> Some (caught_message e)
      | Inr (out, tmp) \<Rightarrow>
          if success out \<and> items out \<noteq> [] then
            (case update_soa_raises q of
               Some e \<Rightarrow> Some (caught_message e)
             | None \<Rightarrow> map_option caught_message (snd (summarize (items out) (initial_batch_state {}))))
          else Some (case error_msg out of
                       None \<Rightarrow> ''No data extracted''
                     | Some m \<Rightarrow> if m = [] then ''No data extracted'' else m))"

definition receipt_items :: "pylib \<Rightarrow> queued \<Rightarrow> line_item list" where
  "receipt_items L q =
     (case snd (process_single_receipt L q {}) of
        Inl e \<Rightarrow> []
      | Inr (out, tmp) \<Rightarrow>
          if success out \<and> items out \<noteq> [] \<and> update_soa_raises q = None then items out else [])"

definition error_entries :: "pylib \<Rightarrow> nat \<times> queued \<Rightarrow> string list" where
  "error_entries L p = (case receipt_error L (snd p) of None \<Rightarrow> [] | Some m \<Rightarrow> [receipt_label (fst p) @ m])"







section \<open>Evaluation lemmas\<close>

lemma parse_amount_thousands: "parse_amount ''1,234.56'' = Some (Finite 1234.56)"
  by code_simp

lemma parse_amount_unparseable: "parse_amount ''N/A'' = None"
  by code_simp

section \<open>The shape of every outcome\<close>

lemma produced_ok:
  "its \<noteq> [] \<Longrightarrow> m \<noteq> ''failed'' \<Longrightarrow> m \<noteq> ''text_extraction_failed'' \<Longrightarrow> outcome_ok (produced its m)"
  by (simp add: outcome_ok_def produced_def)

lemma date_loop_ok: "outcome_ok out \<Longrightarrow> outcome_ok (date_loop L out)"
  by (simp add: outcome_ok_def date_loop_def)

lemma failure_ok:
  "err \<noteq> None \<Longrightarrow> outcome_ok \<lparr>items = [], success = False, error_msg = err, extraction_method = m\<rparr>"
  by (simp add: outcome_ok_def)

lemma regex_stage_ok: "outcome_ok (regex_stage L t)"
  by (simp add: regex_stage_def outcome_ok_def produced_def split: list.splits)

lemma tables_stage_ok: "tables_stage L E t = (cs, Inr out) \<Longrightarrow> outcome_ok out"
  by (auto simp: tables_stage_def regex_stage_ok produced_ok split: if_splits sum.splits)

lemma finish_text_err: "finish_text t = (u, False, err) \<Longrightarrow> err \<noteq> None"
  by (auto simp: finish_text_def split: if_splits)

lemma extract_text_err: "extract_text E = (ct, Inr (t, False, err)) \<Longrightarrow> err \<noteq> None"
  by (auto simp: extract_text_def extract_text_pdf_def extract_text_image_def Let_def
      split: if_splits sum.splits prod.splits dest: finish_text_err)

lemma text_stage_ok: "text_stage L E = (cs, Inr out) \<Longrightarrow> outcome_ok out"
  unfolding text_stage_def
  by (auto simp: produced_ok split: if_splits sum.splits prod.splits
      dest: tables_stage_ok intro!: failure_ok dest!: extract_text_err)

lemma run_stages_ok: "run_stages L E = (cs, Inr out) \<Longrightarrow> outcome_ok out"
  unfolding run_stages_def
  by (auto simp: produced_ok split: if_splits sum.splits prod.splits dest: text_stage_ok)

lemma coffee_run:
  "extract_receipt_data example_lib coffee_image =
     ([ParseDirectlyFromImage],
      Inr \<lparr>items = [\<lparr>Date = Some ''04/11/2026'', Item = ''Coffee'', Price = PFloat (Finite 4.5),
                      Qty = PFloat (Finite 1), Total = PFloat (Finite 4.5)\<rparr>],
           success = True, error_msg = None, extraction_method = ''gemini_vision''\<rparr>)"
  by code_simp

lemma silent_image_run:
  "extract_receipt_data example_lib silent_image =
     ([ParseDirectlyFromImage, ExtractText, TextVision, TextFromImage],
      Inr \<lparr>items = [], success = False, error_msg = Some quality_error,
           extraction_method = ''text_extraction_failed''\<rparr>)"
  by code_simp

text \<open>
  C7. Every outcome \<open>extract_receipt_data\<close> returns is of exactly one of two shapes:
  \<open>success\<close> is true, the list of items is not empty, there is no error and the method is
  not a failure marker; or \<open>success\<close> is false, the list of items is empty and an
  error message is present.
\<close>

theorem extract_receipt_data_outcome_ok:
  "extract_receipt_data L E = (cs, Inr out) \<Longrightarrow> outcome_ok out"
  unfolding extract_receipt_data_def
  by (auto split: if_splits sum.splits prod.splits dest: run_stages_ok intro: date_loop_ok)

theorem extract_receipt_data_outcome_ok_witness:
  "extract_receipt_data example_lib coffee_image =
     ([ParseDirectlyFromImage],
      Inr \<lparr>items = [\<lparr>Date = Some ''04/11/2026'', Item = ''Coffee'', Price = PFloat (Finite 4.5),
                      Qty = PFloat (Finite 1), Total = PFloat (Finite 4.5)\<rparr>],
           success = True, error_msg = None, extraction_method = ''gemini_vision''\<rparr>)
   \<and> outcome_ok \<lparr>items = [\<lparr>Date = Some ''04/11/2026'', Item = ''Coffee'', Price = PFloat (Finite 4.5),
                            Qty = PFloat (Finite 1), Total = PFloat (Finite 4.5)\<rparr>],
                 success = True, error_msg = None, extraction_method = ''gemini_vision''\<rparr>
   \<and> extract_receipt_data example_lib silent_image =
     ([ParseDirectlyFromImage, ExtractText, TextVision, TextFromImage],
      Inr \<lparr>items = [], success = False, error_msg = Some quality_error,
           extraction_method = ''text_extraction_failed''\<rparr>)
   \<and> outcome_ok \<lparr>items = [], success = False, error_msg = Some quality_error,
                 extraction_method = ''text_extraction_failed''\<rparr>"
  using extract_receipt_data_outcome_ok [OF coffee_run] extract_receipt_data_outcome_ok [OF silent_image_run]
    coffee_run silent_image_run
  by simp

section \<open>Dates of the returned items\<close>

lemma is_digit_digit_char: "is_digit (digit_char n)"
  by (simp add: is_digit_def digit_char_def Let_def)

lemma strftime_dmy_shape:
  "\<exists>a b c e f g h i. strftime_dmy d = [a, b, CHR ''/'', c, e, CHR ''/'', f, g, h, i]
     \<and> list_all is_digit [a, b, c, e, f, g, h, i]"
  by (simp add: strftime_dmy_def pad2_def pad4_def is_digit_digit_char)

lemma strftime_dmy_nonempty: "strftime_dmy d \<noteq> []"
  by (simp add: strftime_dmy_def pad2_def)

lemma ensure_date_dated: "Date (ensure_date L it) \<noteq> None \<and> Date (ensure_date L it) \<noteq> Some []"
  by (simp add: ensure_date_def strftime_dmy_nonempty split: option.splits)

lemma ensure_date_default:
  "Date it = None \<or> Date it = Some [] \<Longrightarrow> Date (ensure_date L it) = Some (strftime_dmy (today L))"
  by (auto simp: ensure_date_def)

lemma ensure_date_keeps: "Date it = Some d \<Longrightarrow> d \<noteq> [] \<Longrightarrow> ensure_date L it = it"
  by (simp add: ensure_date_def)

lemma ensure_date_fields:
  "Item (ensure_date L it) = Item it \<and> Price (ensure_date L it) = Price it
   \<and> Qty (ensure_date L it) = Qty it \<and> Total (ensure_date L it) = Total it"
  by (simp add: ensure_date_def split: option.splits)

lemma date_loop_dated: "\<forall>it \<in> set (items (date_loop L out)). \<exists>d. Date it = Some d \<and> d \<noteq> []"
proof
  fix it assume "it \<in> set (items (date_loop L out))"
  then obtain it0 where "it = ensure_date L it0"
    by (auto simp: date_loop_def)
  then show "\<exists>d. Date it = Some d \<and> d \<noteq> []"
    using ensure_date_dated [of L it0] by (cases "Date it") auto
qed

lemma ensure_date_default_item:
  "Date it = None \<or> Date it = Some [] \<Longrightarrow> ensure_date L it = it\<lparr>Date := Some (strftime_dmy (today L))\<rparr>"
  by (auto simp: ensure_date_def)

lemma ensure_date_keeps_item: "Date it \<noteq> None \<and> Date it \<noteq> Some [] \<Longrightarrow> ensure_date L it = it"
  by (cases "Date it") (auto simp: ensure_date_def)

lemma returned_is_date_loop:
  assumes "extract_receipt_data L E = (cs, Inr out)" and "success out"
  shows "\<exists>raw. run_stages L E = (cs, Inr raw) \<and> success raw \<and> out = date_loop L raw"
  using assms
  by (auto simp: extract_receipt_data_def date_loop_def split: prod.splits sum.splits if_splits)

lemma coerce_numbers_Date: "coerce_numbers row = Inr row' \<Longrightarrow> Date row' = Date row"
  by (auto simp: coerce_numbers_def coerce_handler_def Let_def split: sum.splits if_splits)

lemma make_row_Date_default:
  "map_of kvs ''Date'' = None \<Longrightarrow> Date (make_row L kvs) = Some (strftime_dmy (today L))"
  by (simp add: make_row_def dict_get_def)

lemma table_pdf_stages:
  "run_stages example_lib table_pdf =
     ([ExtractText, TextPdfplumber, ParseWithGemini, ItemsFromTables],
      Inr \<lparr>items = [\<lparr>Date = None, Item = ''Tea'', Price = PInt 0,
                      Qty = PFloat (Finite 1), Total = PFloat (Finite 1234.56)\<rparr>],
           success = True, error_msg = None, extraction_method = ''pdfplumber_tables''\<rparr>)"
  by code_simp

lemma table_pdf_run:
  "extract_receipt_data example_lib table_pdf =
     ([ExtractText, TextPdfplumber, ParseWithGemini, ItemsFromTables],
      Inr \<lparr>items = [\<lparr>Date = Some ''04/11/2026'', Item = ''Tea'', Price = PInt 0,
                      Qty = PFloat (Finite 1), Total = PFloat (Finite 1234.56)\<rparr>],
           success = True, error_msg = None, extraction_method = ''pdfplumber_tables''\<rparr>)"
  by code_simp

text \<open>
  C8. Every item of a successful \<open>extract_receipt_data\<close> call has a \<open>Date\<close> that is
  present and not empty, whichever stage produced it. The returned items are, one
  for one, the items the stages produced (\<open>run_stages\<close>): an item the stage left
  without a date, or with an empty one, is returned with today's date and otherwise
  as it was, an item with a date is returned unchanged. Today's date has the form
  DD/MM/YYYY. The AI JSON stage itself puts today's date into a row whose JSON
  object has no \<open>Date\<close>.
\<close>

theorem returned_items_dated:
  assumes "extract_receipt_data L E = (cs, Inr out)" and "success out"
  shows "(\<forall>it \<in> set (items out). \<exists>d. Date it = Some d \<and> d \<noteq> [])
       \<and> (\<exists>raw. run_stages L E = (cs, Inr raw)
             \<and> length (items out) = length (items raw)
             \<and> (\<forall>i < length (items raw).
                   (Date (items raw ! i) = None \<or> Date (items raw ! i) = Some [] \<longrightarrow>
                      items out ! i = (items raw ! i)\<lparr>Date := Some (strftime_dmy (today L))\<rparr>)
                   \<and> (Date (items raw ! i) \<noteq> None \<and> Date (items raw ! i) \<noteq> Some [] \<longrightarrow>
                      items out ! i = items raw ! i)))
       \<and> (\<exists>a b c e f g h i. strftime_dmy (today L) = [a, b, CHR ''/'', c, e, CHR ''/'', f, g, h, i]
             \<and> list_all is_digit [a, b, c, e, f, g, h, i])
       \<and> (\<forall>kvs row. map_of kvs ''Date'' = None \<and> coerce_numbers (make_row L kvs) = Inr row \<longrightarrow>
             Date row = Some (strftime_dmy (today L)))"
proof -
  obtain raw where raw: "run_stages L E = (cs, Inr raw)" and out: "out = date_loop L raw"
    using returned_is_date_loop [OF assms] by blast
  have 1: "\<forall>it \<in> set (items out). \<exists>d. Date it = Some d \<and> d \<noteq> []"
    unfolding out by (rule date_loop_dated)
  have len: "length (items out) = length (items raw)"
    unfolding out by (simp add: date_loop_def)
  have each: "\<forall>i < length (items raw).
                   (Date (items raw ! i) = None \<or> Date (items raw ! i) = Some [] \<longrightarrow>
                      items out ! i = (items raw ! i)\<lparr>Date := Some (strftime_dmy (today L))\<rparr>)
                   \<and> (Date (items raw ! i) \<noteq> None \<and> Date (items raw ! i) \<noteq> Some [] \<longrightarrow>
                      items out ! i = items raw ! i)"
    unfolding out
    using ensure_date_default_item [of _ L] ensure_date_keeps_item [of _ L]
    by (simp add: date_loop_def)
  have 2: "\<exists>raw. run_stages L E = (cs, Inr raw)
             \<and> length (items out) = length (items raw)
             \<and> (\<forall>i < length (items raw).
                   (Date (items raw ! i) = None \<or> Date (items raw ! i) = Some [] \<longrightarrow>
                      items out ! i = (items raw ! i)\<lparr>Date := Some (strftime_dmy (today L))\<rparr>)
                   \<and> (Date (items raw ! i) \<noteq> None \<and> Date (items raw ! i) \<noteq> Some [] \<longrightarrow>
                      items out ! i = items raw ! i))"
    using raw len each by blast
  have 4: "\<forall>kvs row. map_of kvs ''Date'' = None \<and> coerce_numbers (make_row L kvs) = Inr row \<longrightarrow>
             Date row = Some (strftime_dmy (today L))"
    using coerce_numbers_Date make_row_Date_default by metis
  show ?thesis using 1 2 strftime_dmy_shape [of "today L"] 4 by blast
qed

theorem returned_items_dated_witness:
  "extract_receipt_data example_lib table_pdf =
     ([ExtractText, TextPdfplumber, ParseWithGemini, ItemsFromTables],
      Inr \<lparr>items = [\<lparr>Date = Some ''04/11/2026'', Item = ''Tea'', Price = PInt 0,
                      Qty = PFloat (Finite 1), Total = PFloat (Finite 1234.56)\<rparr>],
           success = True, error_msg = None, extraction_method = ''pdfplumber_tables''\<rparr>)
   \<and> run_stages example_lib table_pdf =
     ([ExtractText, TextPdfplumber, ParseWithGemini, ItemsFromTables],
      Inr \<lparr>items = [\<lparr>Date = None, Item = ''Tea'', Price = PInt 0,
                      Qty = PFloat (Finite 1), Total = PFloat (Finite 1234.56)\<rparr>],
           success = True, error_msg = None, extraction_method = ''pdfplumber_tables''\<rparr>)
   \<and> strftime_dmy (today example_lib) = ''04/11/2026''
   \<and> (\<exists>d. Date \<lparr>Date = Some ''04/11/2026'', Item = ''Tea'', Price = PInt 0,
                   Qty = PFloat (Finite 1), Total = PFloat (Finite 1234.56)\<rparr> = Some d \<and> d \<noteq> [])"
proof -
  have d: "strftime_dmy (today example_lib) = ''04/11/2026''"
    by code_simp
  show ?thesis
    using returned_items_dated [OF table_pdf_run] table_pdf_run table_pdf_stages d by simp
qed

section \<open>The vision stage ends the pipeline\<close>

lemma vision_stage_calls:
  "vision_stage L E = (c, r) \<Longrightarrow> c = [] \<or> c = [ParseDirectlyFromImage] \<or> c = [ParseDirectlyFromPdfImage]"
  by (auto simp: vision_stage_def split: if_splits)

lemma vision_items_general:
  assumes "vision_stage L E = (c, Inr (Some its))" and "its \<noteq> []"
  shows "extract_receipt_data L E =
           (c, Inr \<lparr>items = map (ensure_date L) its, success = True, error_msg = None,
                    extraction_method = ''gemini_vision''\<rparr>)
         \<and> (c = [ParseDirectlyFromImage] \<or> c = [ParseDirectlyFromPdfImage])"
  using assms vision_stage_calls [OF assms(1)]
  by (auto simp: extract_receipt_data_def run_stages_def items_or_empty_def produced_def date_loop_def
      vision_stage_def split: if_splits)

lemma coffee_vision:
  "vision_stage example_lib coffee_image =
     ([ParseDirectlyFromImage],
      Inr (Some [\<lparr>Date = Some ''04/11/2026'', Item = ''Coffee'', Price = PFloat (Finite 4.5),
                   Qty = PFloat (Finite 1), Total = PFloat (Finite 4.5)\<rparr>]))"
  by code_simp

lemma coffee_reply:
  "handle_receipt_extraction example_lib configured (Some coffee_queued) {} =
     ({}, [ReplyReceived,
           ReplyExtracted [AmountLine ''04/11/2026'' ''Coffee'' (Finite 4.5)] (Finite 4.5) ''gemini_vision''])"
  by code_simp

text \<open>
  C6. When the direct vision stage returns at least one item, \<open>extract_receipt_data\<close>
  returns those items (a date left empty is filled in, nothing else is touched) with
  \<open>success\<close> true, no error and the method \<open>gemini_vision\<close>, and the call log holds the
  vision stage alone: no later stage is invoked. In particular the vision answer
  \<open>[{"Item":"Coffee","Price":4.5,"Qty":1,"Total":4.5}]\<close> gives one line item, and the
  total the handler reports for it is 4.5.
\<close>

theorem vision_items_returned:
  "(vision_stage L E = (c, Inr (Some its)) \<and> its \<noteq> [] \<longrightarrow>
      extract_receipt_data L E =
        (c, Inr \<lparr>items = map (ensure_date L) its, success = True, error_msg = None,
                 extraction_method = ''gemini_vision''\<rparr>)
      \<and> (c = [ParseDirectlyFromImage] \<or> c = [ParseDirectlyFromPdfImage])
      \<and> length (map (ensure_date L) its) = length its
      \<and> map Item (map (ensure_date L) its) = map Item its
      \<and> map Price (map (ensure_date L) its) = map Price its
      \<and> map Qty (map (ensure_date L) its) = map Qty its
      \<and> map Total (map (ensure_date L) its) = map Total its)
   \<and> extract_receipt_data example_lib coffee_image =
       ([ParseDirectlyFromImage],
        Inr \<lparr>items = [\<lparr>Date = Some ''04/11/2026'', Item = ''Coffee'', Price = PFloat (Finite 4.5),
                        Qty = PFloat (Finite 1), Total = PFloat (Finite 4.5)\<rparr>],
             success = True, error_msg = None, extraction_method = ''gemini_vision''\<rparr>)
   \<and> handle_receipt_extraction example_lib configured (Some coffee_queued) {} =
       ({}, [ReplyReceived,
             ReplyExtracted [AmountLine ''04/11/2026'' ''Coffee'' (Finite 4.5)] (Finite 4.5) ''gemini_vision''])"
  using vision_items_general [of L E c its] coffee_run coffee_reply
  by (simp add: ensure_date_fields comp_def)

theorem vision_items_returned_witness:
  "vision_stage example_lib coffee_image =
     ([ParseDirectlyFromImage],
      Inr (Some [\<lparr>Date = Some ''04/11/2026'', Item = ''Coffee'', Price = PFloat (Finite 4.5),
                   Qty = PFloat (Finite 1), Total = PFloat (Finite 4.5)\<rparr>]))
   \<and> extract_receipt_data example_lib coffee_image =
       ([ParseDirectlyFromImage],
        Inr \<lparr>items = map (ensure_date example_lib)
                        [\<lparr>Date = Some ''04/11/2026'', Item = ''Coffee'', Price = PFloat (Finite 4.5),
                           Qty = PFloat (Finite 1), Total = PFloat (Finite 4.5)\<rparr>],
             success = True, error_msg = None, extraction_method = ''gemini_vision''\<rparr>)"
  using vision_items_returned [of example_lib coffee_image "[ParseDirectlyFromImage]"
      "[\<lparr>Date = Some ''04/11/2026'', Item = ''Coffee'', Price = PFloat (Finite 4.5),
         Qty = PFloat (Finite 1), Total = PFloat (Finite 4.5)\<rparr>]"]
    coffee_vision
  by simp

section \<open>The regex fallback\<close>




lemma ocr_total_amounts: "extract_totals_from_text ''Corner shop receipt Total: 42.50'' = [Finite 42.5]"
  by code_simp






lemma length_skip_char: "length (skip_char x s) \<le> length s"
  by (simp add: skip_char_def split: list.splits)

lemma amount_tail_shorter: "amount_tail s = Some (g, r) \<Longrightarrow> length r < length s"
proof -
  assume a: "amount_tail s = Some (g, r)"
  define s2 where "s2 = skip_char (CHR ''$'') (dropWhile (\<lambda>c. c = CHR '':'' \<or> is_space c) s)"
  define s3 where "s3 = dropWhile is_amount_char s2"
  have b: "takeWhile is_amount_char s2 \<noteq> [] \<and> r = dropWhile is_digit (skip_char (CHR ''.'') s3)"
  proof (cases "takeWhile is_amount_char s2 = []")
    case True
    then show ?thesis using a by (simp add: amount_tail_def Let_def s2_def)
  next
    case False
    then show ?thesis using a by (simp add: amount_tail_def Let_def s2_def s3_def)
  qed
  have 1: "length s2 \<le> length s"
    unfolding s2_def
    using length_skip_char [of "CHR ''$''" "dropWhile (\<lambda>c. c = CHR '':'' \<or> is_space c) s"]
      length_dropWhile_le [of "\<lambda>c. c = CHR '':'' \<or> is_space c" s]
    by linarith
  have "length (takeWhile is_amount_char s2) + length s3 = length s2"
    unfolding s3_def by (metis length_append takeWhile_dropWhile_id)
  with b have 3: "length s3 < length s2" by (cases "takeWhile is_amount_char s2") auto
  have r: "r = dropWhile is_digit (skip_char (CHR ''.'') s3)"
    using b by simp
  have 5: "length r \<le> length s3"
    unfolding r
    using length_dropWhile_le [of is_digit "skip_char (CHR ''.'') s3"] length_skip_char [of "CHR ''.''" s3]
    by linarith
  show ?thesis using 1 3 5 by linarith
qed

lemma match_ci_shorter: "match_ci lit s = Some r \<Longrightarrow> length r \<le> length s"
  by (auto simp: match_ci_def split: if_splits)

lemma one_word_pattern_shorter: "one_word_pattern a s = Some (g, r) \<Longrightarrow> length r < length s"
  by (auto simp: one_word_pattern_def split: option.splits dest!: match_ci_shorter amount_tail_shorter)

lemma two_word_pattern_shorter: "two_word_pattern a b s = Some (g, r) \<Longrightarrow> length r < length s"
proof -
  assume h: "two_word_pattern a b s = Some (g, r)"
  then obtain r1 r2 where 1: "match_ci a s = Some r1" and 2: "match_ci b (dropWhile is_space r1) = Some r2"
    and 3: "amount_tail r2 = Some (g, r)"
    by (auto simp: two_word_pattern_def split: option.splits)
  have "length (dropWhile is_space r1) \<le> length r1" by (rule length_dropWhile_le)
  then show ?thesis
    using match_ci_shorter [OF 1] match_ci_shorter [OF 2] amount_tail_shorter [OF 3] by linarith
qed

lemma TOTAL_PATTERNS_shorter: "p \<in> set TOTAL_PATTERNS \<Longrightarrow> p s = Some (g, r) \<Longrightarrow> length r < length s"
  by (auto simp: TOTAL_PATTERNS_def dest: one_word_pattern_shorter two_word_pattern_shorter)

lemma DECIMAL_PATTERN_shorter: "DECIMAL_PATTERN s = Some (g, r) \<Longrightarrow> length r < length s"
proof -
  assume h: "DECIMAL_PATTERN s = Some (g, r)"
  then obtain c d1 d2 where "dropWhile is_amount_char s = c # d1 # d2 # r"
    by (auto simp: DECIMAL_PATTERN_def Let_def split: if_splits list.splits)
  then have "length r < length (dropWhile is_amount_char s)" by simp
  then show ?thesis using length_dropWhile_le [of is_amount_char s] by linarith
qed









section \<open>Coercion of the numeric fields\<close>

lemma header_item: "lower (strip ''Item'') = ''item''"
  by code_simp

lemma header_total: "lower (strip ''Total'') = ''total''"
  by code_simp

lemma strip_na: "strip ''N/A'' = ''N/A''"
  by code_simp

lemma strip_amount: "strip ''1,234.56'' = ''1,234.56''"
  by code_simp

lemma parse_amount_one: "parse_amount ''1'' = Some (Finite 1)"
  by code_simp

lemma parse_amount_empty: "parse_amount [] = None"
  by (simp add: parse_amount_def)

lemma table_unparseable_total:
  "strip name \<noteq> [] \<Longrightarrow>
     table_items [[Some ''Item'', Some ''Total''], [Some name, Some ''N/A'']] =
       [\<lparr>Date = None, Item = strip name, Price = PInt 0, Qty = PFloat (Finite 1), Total = PInt 0\<rparr>]"
  by (simp add: table_items_def table_row_item_def List.map_filter_def cell_str_def row_get_def
      truthy_amount_def Let_def header_item header_total strip_na parse_amount_one parse_amount_empty
      parse_amount_unparseable)

lemma table_thousands_total:
  "table_items [[Some ''Item'', Some ''Total''], [Some name, Some ''1,234.56'']] =
     [\<lparr>Date = None, Item = (if strip name = [] then ''Unknown'' else strip name), Price = PInt 0,
        Qty = PFloat (Finite 1), Total = PFloat (Finite 1234.56)\<rparr>]"
  by (simp add: table_items_def table_row_item_def List.map_filter_def cell_str_def row_get_def
      truthy_amount_def Let_def header_item header_total strip_amount parse_amount_one parse_amount_empty
      parse_amount_thousands)

lemma py_float_raises:
  "py_float v = Inl e \<Longrightarrow> e = ValueError \<or> e = TypeError \<or> (e = OverflowError \<and> overflows v)"
  by (cases v) (auto simp: overflows_def split: if_splits option.splits)

lemma coerce_raises:
  "coerce v d = Inl e \<Longrightarrow> e = ValueError \<or> e = TypeError \<or> (e = OverflowError \<and> overflows v)"
  by (auto simp: coerce_def split: if_splits sum.splits dest: py_float_raises)

lemma coerce_numbers_total:
  assumes "\<not> overflows (Price row)" "\<not> overflows (Qty row)" "\<not> overflows (Total row)"
  shows "\<exists>row'. coerce_numbers row = Inr row'"
  using assms
  by (auto simp: coerce_numbers_def coerce_handler_def Let_def split: sum.splits dest!: coerce_raises)

lemma coerce_rejected_string: "float_of_str s = None \<Longrightarrow> s \<noteq> [] \<Longrightarrow> coerce (PStr s) d = Inl ValueError"
  by (simp add: coerce_def)

lemma coerce_numbers_keeps_string:
  assumes "Total row = PStr s" "s \<noteq> []" "float_of_str s = None" "coerce_numbers row = Inr row'"
  shows "Total row' = PStr s"
  using assms
  by (auto simp: coerce_numbers_def coerce_handler_def Let_def coerce_rejected_string
      split: sum.splits if_splits)

lemma normalize_items_length:
  "normalize_items L entries = Inr rows \<Longrightarrow> length rows = length (filter is_dict entries)"
proof (induction entries arbitrary: rows)
  case Nil
  then show ?case by simp
next
  case (Cons v vs)
  then show ?case by (cases v) (auto split: sum.splits)
qed

text \<open>
  C2, as the claim states it, fails on the AI JSON stage: the totals \<open>"1,234.56"\<close> and
  \<open>"N/A"\<close> of a decoded answer stay the strings they were, they become neither
  1234.56 nor 0.
\<close>

theorem json_string_totals_kept:
  "parse_gemini_json_response example_lib strings_response =
     Inr (Some [\<lparr>Date = Some ''04/11/2026'', Item = ''Tea'', Price = PInt 0,
                  Qty = PFloat (Finite 1), Total = PStr ''1,234.56''\<rparr>,
                \<lparr>Date = Some ''04/11/2026'', Item = ''Fee'', Price = PInt 0,
                  Qty = PFloat (Finite 1), Total = PStr ''N/A''\<rparr>])"
  by code_simp

text \<open>
  C2, amended. \<open>_parse_amount\<close>, which reads the cells of the table stage and the
  matches of the regex stage, coerces tolerantly: \<open>"1,234.56"\<close> is 1234.56 and
  \<open>"N/A"\<close> gives no value. In a table with the columns \<open>Item\<close> and \<open>Total\<close> a row with
  the total \<open>"1,234.56"\<close> gets the total 1234.56, and a row with an item name and the
  total \<open>"N/A"\<close> is kept with the total 0. In the AI JSON stage a string that is not
  empty and that \<open>float\<close> rejects stays in the line item as that string; the
  conversion raises for no row whose three fields are not integers beyond the float
  range, and every dict of the array gives one line item.
\<close>

theorem string_amount_coercion:
  "parse_amount ''1,234.56'' = Some (Finite 1234.56)
   \<and> parse_amount ''N/A'' = None
   \<and> table_items [[Some ''Item'', Some ''Total''], [Some name, Some ''1,234.56'']] =
       [\<lparr>Date = None, Item = (if strip name = [] then ''Unknown'' else strip name), Price = PInt 0,
          Qty = PFloat (Finite 1), Total = PFloat (Finite 1234.56)\<rparr>]
   \<and> (strip name \<noteq> [] \<longrightarrow>
        table_items [[Some ''Item'', Some ''Total''], [Some name, Some ''N/A'']] =
          [\<lparr>Date = None, Item = strip name, Price = PInt 0, Qty = PFloat (Finite 1), Total = PInt 0\<rparr>])
   \<and> (Total row = PStr s \<and> s \<noteq> [] \<and> float_of_str s = None \<and> coerce_numbers row = Inr row' \<longrightarrow>
        Total row' = PStr s)
   \<and> (\<not> overflows (Price row) \<and> \<not> overflows (Qty row) \<and> \<not> overflows (Total row) \<longrightarrow>
        (\<exists>r. coerce_numbers row = Inr r))
   \<and> (normalize_items L entries = Inr rows \<longrightarrow> length rows = length (filter is_dict entries))"
  using parse_amount_thousands parse_amount_unparseable table_thousands_total [of name]
    table_unparseable_total [of name] coerce_numbers_keeps_string [of row s row']
    coerce_numbers_total [of row] normalize_items_length [of L entries rows]
  by blast

theorem string_amount_coercion_witness:
  "strip ''Tea'' \<noteq> []
   \<and> table_items [[Some ''Item'', Some ''Total''], [Some ''Tea'', Some ''N/A'']] =
       [\<lparr>Date = None, Item = strip ''Tea'', Price = PInt 0, Qty = PFloat (Finite 1), Total = PInt 0\<rparr>]
   \<and> float_of_str ''N/A'' = None
   \<and> coerce_numbers \<lparr>Date = None, Item = ''Fee'', Price = PInt 0, Qty = PInt 1, Total = PStr ''N/A''\<rparr> =
       Inr \<lparr>Date = None, Item = ''Fee'', Price = PInt 0, Qty = PFloat (Finite 1), Total = PStr ''N/A''\<rparr>
   \<and> Total \<lparr>Date = None, Item = ''Fee'', Price = PInt 0, Qty = PFloat (Finite 1), Total = PStr ''N/A''\<rparr>
       = PStr ''N/A''
   \<and> normalize_items example_lib [PInt 3, PDict [(''Item'', PStr ''Tea'')]] =
       Inr [\<lparr>Date = Some ''04/11/2026'', Item = ''Tea'', Price = PInt 0, Qty = PFloat (Finite 1),
              Total = PInt 0\<rparr>]
   \<and> length [\<lparr>Date = Some ''04/11/2026'', Item = ''Tea'', Price = PInt 0, Qty = PFloat (Finite 1),
               Total = PInt 0\<rparr>] = length (filter is_dict [PInt 3, PDict [(''Item'', PStr ''Tea'')]])"
proof -
  have a: "strip ''Tea'' \<noteq> []"
    by code_simp
  have b: "float_of_str ''N/A'' = None"
    by code_simp
  have c: "coerce_numbers \<lparr>Date = None, Item = ''Fee'', Price = PInt 0, Qty = PInt 1, Total = PStr ''N/A''\<rparr> =
       Inr \<lparr>Date = None, Item = ''Fee'', Price = PInt 0, Qty = PFloat (Finite 1), Total = PStr ''N/A''\<rparr>"
    by code_simp
  have d: "normalize_items example_lib [PInt 3, PDict [(''Item'', PStr ''Tea'')]] =
       Inr [\<lparr>Date = Some ''04/11/2026'', Item = ''Tea'', Price = PInt 0, Qty = PFloat (Finite 1),
              Total = PInt 0\<rparr>]"
    by code_simp
  show ?thesis
    using string_amount_coercion [of "''Tea''"
        "\<lparr>Date = None, Item = ''Fee'', Price = PInt 0, Qty = PInt 1, Total = PStr ''N/A''\<rparr>" "''N/A''"
        "\<lparr>Date = None, Item = ''Fee'', Price = PInt 0, Qty = PFloat (Finite 1), Total = PStr ''N/A''\<rparr>"
        example_lib "[PInt 3, PDict [(''Item'', PStr ''Tea'')]]"
        "[\<lparr>Date = Some ''04/11/2026'', Item = ''Tea'', Price = PInt 0, Qty = PFloat (Finite 1),
            Total = PInt 0\<rparr>]"]
      a b c d
    by simp
qed

text \<open>
  C10 asks that a quantity of 0 becomes 1. The three conversions share one \<open>try\<close>:
  when the conversion of \<open>Price\<close> raises \<open>ValueError\<close>, the handler leaves the block and
  \<open>Qty\<close> and \<open>Total\<close> keep what the answer held. For the answer
  \<open>[{"Item":"Tea","Price":"abc","Qty":0}]\<close> the quantity of the line item is 0.
\<close>

theorem zero_quantity_kept_after_price_error:
  "parse_gemini_json_response example_lib bad_price_response =
     Inr (Some [\<lparr>Date = Some ''04/11/2026'', Item = ''Tea'', Price = PStr ''abc'',
                  Qty = PInt 0, Total = PInt 0\<rparr>])"
  by code_simp


section \<open>The order of the text recovery\<close>

text \<open>
  C4, as the claim states it, fails for images, where the vision transcription is
  tried first and the OCR is not run once it has answered, and in the threshold,
  which counts the characters left after \<open>strip\<close>, blanks inside the text included.
\<close>

theorem image_text_recovery_differs:
  "spec_text_recovery two_texts_image = Some ''OCR text: Total 42.50 paid''
   \<and> extract_text two_texts_image = ([TextVision], Inr (''Vision text: Total 42.50 paid'', True, None))
   \<and> spec_text_recovery spaced_image = None
   \<and> extract_text spaced_image =
       ([TextVision, TextFromImage], Inr (''a                  b'', True, None))"
  by code_simp

text \<open>
  C4, amended. For a PDF that exists and whose text layer is read without an
  exception the sub-stages run in the order text layer, OCR, vision transcription of
  the first page, the last two only where OCR is available; for an image the order
  is vision transcription, then OCR where it is available. A sub-stage's text is
  taken when it is not empty and at least 20 characters long after \<open>strip\<close>, and no
  later sub-stage runs then. When no text is taken, \<open>extract_text\<close> fails with the
  extraction-quality error, and after an empty vision stage \<open>extract_receipt_data\<close>
  returns that failure with the method \<open>text_extraction_failed\<close> without calling
  the AI text stage, the table stage or the amount scanner.
\<close>

theorem text_recovery_order:
  assumes "file_exists E"
  shows "(file_ext E = ''.pdf'' \<and> pdfplumber_text E = Inr t1 \<longrightarrow>
           extract_text E =
             (if \<not> short_text t1 then ([TextPdfplumber], Inr (strip t1, True, None))
              else if \<not> ocr_available E then ([TextPdfplumber], Inr text_failure)
              else if \<not> short_text (extract_text_ocr E) then
                ([TextPdfplumber, TextOcr], Inr (strip (extract_text_ocr E), True, None))
              else if \<not> short_text (extract_text_from_pdf_via_gemini_vision E) then
                ([TextPdfplumber, TextOcr, TextPdfVision],
                 Inr (strip (extract_text_from_pdf_via_gemini_vision E), True, None))
              else ([TextPdfplumber, TextOcr, TextPdfVision], Inr text_failure)))
       \<and> (file_ext E \<in> set image_exts \<longrightarrow>
           extract_text E =
             (if \<not> short_text (extract_text_via_gemini_vision E (file_image E)) then
                ([TextVision], Inr (strip (extract_text_via_gemini_vision E (file_image E)), True, None))
              else if \<not> ocr_available E then ([TextVision], Inr text_failure)
              else if \<not> short_text (extract_text_from_image E) then
                ([TextVision, TextFromImage], Inr (strip (extract_text_from_image E), True, None))
              else ([TextVision, TextFromImage], Inr text_failure)))
       \<and> (vision_stage L E = (c1, Inr r) \<and> items_or_empty r = [] \<and> extract_text E = (ct, Inr text_failure) \<longrightarrow>
           extract_receipt_data L E =
             (c1 @ ExtractText # ct,
              Inr \<lparr>items = [], success = False, error_msg = Some quality_error,
                   extraction_method = ''text_extraction_failed''\<rparr>)
           \<and> ParseWithGemini \<notin> set (c1 @ ExtractText # ct)
           \<and> ItemsFromTables \<notin> set (c1 @ ExtractText # ct)
           \<and> TotalsFromText \<notin> set (c1 @ ExtractText # ct))"
proof -
  have img: "''.pdf'' \<notin> set image_exts" by (simp add: image_exts_def)
  have short_empty: "short_text []" by (simp add: short_text_def)
  have a: "file_ext E = ''.pdf'' \<and> pdfplumber_text E = Inr t1 \<longrightarrow>
           extract_text E =
             (if \<not> short_text t1 then ([TextPdfplumber], Inr (strip t1, True, None))
              else if \<not> ocr_available E then ([TextPdfplumber], Inr text_failure)
              else if \<not> short_text (extract_text_ocr E) then
                ([TextPdfplumber, TextOcr], Inr (strip (extract_text_ocr E), True, None))
              else if \<not> short_text (extract_text_from_pdf_via_gemini_vision E) then
                ([TextPdfplumber, TextOcr, TextPdfVision],
                 Inr (strip (extract_text_from_pdf_via_gemini_vision E), True, None))
              else ([TextPdfplumber, TextOcr, TextPdfVision], Inr text_failure))"
    using assms
    by (auto simp: extract_text_def extract_text_pdf_def finish_text_def text_failure_def Let_def short_text_def)
  have b: "file_ext E \<in> set image_exts \<longrightarrow>
           extract_text E =
             (if \<not> short_text (extract_text_via_gemini_vision E (file_image E)) then
                ([TextVision], Inr (strip (extract_text_via_gemini_vision E (file_image E)), True, None))
              else if \<not> ocr_available E then ([TextVision], Inr text_failure)
              else if \<not> short_text (extract_text_from_image E) then
                ([TextVision, TextFromImage], Inr (strip (extract_text_from_image E), True, None))
              else ([TextVision, TextFromImage], Inr text_failure))"
    using assms img
    by (auto simp: extract_text_def extract_text_image_def finish_text_def text_failure_def Let_def short_text_def)
  have calls: "extract_text E = (ct, r') \<Longrightarrow> set ct \<subseteq> {TextPdfplumber, TextOcr, TextPdfVision, TextVision, TextFromImage}" for r'
    by (auto simp: extract_text_def extract_text_pdf_def extract_text_image_def Let_def split: if_splits sum.splits prod.splits)
  have c: "vision_stage L E = (c1, Inr r) \<and> items_or_empty r = [] \<and> extract_text E = (ct, Inr text_failure) \<longrightarrow>
           extract_receipt_data L E =
             (c1 @ ExtractText # ct,
              Inr \<lparr>items = [], success = False, error_msg = Some quality_error,
                   extraction_method = ''text_extraction_failed''\<rparr>)
           \<and> ParseWithGemini \<notin> set (c1 @ ExtractText # ct)
           \<and> ItemsFromTables \<notin> set (c1 @ ExtractText # ct)
           \<and> TotalsFromText \<notin> set (c1 @ ExtractText # ct)"
  proof (intro impI)
    assume h: "vision_stage L E = (c1, Inr r) \<and> items_or_empty r = [] \<and> extract_text E = (ct, Inr text_failure)"
    then have 1: "extract_receipt_data L E =
             (c1 @ ExtractText # ct,
              Inr \<lparr>items = [], success = False, error_msg = Some quality_error,
                   extraction_method = ''text_extraction_failed''\<rparr>)"
      by (simp add: extract_receipt_data_def run_stages_def text_stage_def text_failure_def)
    from h have 2: "set ct \<subseteq> {TextPdfplumber, TextOcr, TextPdfVision, TextVision, TextFromImage}"
      using calls by blast
    from h have 3: "c1 = [] \<or> c1 = [ParseDirectlyFromImage] \<or> c1 = [ParseDirectlyFromPdfImage]"
      using vision_stage_calls by blast
    show "extract_receipt_data L E =
             (c1 @ ExtractText # ct,
              Inr \<lparr>items = [], success = False, error_msg = Some quality_error,
                   extraction_method = ''text_extraction_failed''\<rparr>)
           \<and> ParseWithGemini \<notin> set (c1 @ ExtractText # ct)
           \<and> ItemsFromTables \<notin> set (c1 @ ExtractText # ct)
           \<and> TotalsFromText \<notin> set (c1 @ ExtractText # ct)"
      using 1 2 3 by auto
  qed
  show ?thesis using a b c by blast
qed

lemma silent_image_vision: "vision_stage example_lib silent_image = ([ParseDirectlyFromImage], Inr None)"
  by code_simp

lemma silent_image_text: "extract_text silent_image = ([TextVision, TextFromImage], Inr text_failure)"
  by code_simp

theorem text_recovery_order_witness:
  "file_exists silent_image \<and> file_exists table_pdf \<and> file_exists two_texts_image
   \<and> extract_text table_pdf = ([TextPdfplumber], Inr (''Corner shop receipt with a table'', True, None))
   \<and> extract_text two_texts_image = ([TextVision], Inr (''Vision text: Total 42.50 paid'', True, None))
   \<and> extract_receipt_data example_lib silent_image =
       ([ParseDirectlyFromImage, ExtractText, TextVision, TextFromImage],
        Inr \<lparr>items = [], success = False, error_msg = Some quality_error,
             extraction_method = ''text_extraction_failed''\<rparr>)"
proof -
  have e: "file_exists silent_image \<and> file_exists table_pdf \<and> file_exists two_texts_image"
    by code_simp
  have p: "file_ext table_pdf = ''.pdf'' \<and> pdfplumber_text table_pdf = Inr ''Corner shop receipt with a table''
           \<and> \<not> short_text ''Corner shop receipt with a table''
           \<and> strip ''Corner shop receipt with a table'' = ''Corner shop receipt with a table''"
    by code_simp
  have i: "file_ext two_texts_image \<in> set image_exts
           \<and> extract_text_via_gemini_vision two_texts_image (file_image two_texts_image) = ''Vision text: Total 42.50 paid''
           \<and> \<not> short_text ''Vision text: Total 42.50 paid''
           \<and> strip ''Vision text: Total 42.50 paid'' = ''Vision text: Total 42.50 paid''"
    by code_simp
  have n: "items_or_empty None = []"
    by (simp add: items_or_empty_def)
  show ?thesis
    using text_recovery_order [of table_pdf "''Corner shop receipt with a table''"]
      text_recovery_order [of two_texts_image]
      text_recovery_order [of silent_image _ example_lib "[ParseDirectlyFromImage]" None "[TextVision, TextFromImage]"]
      e p i n silent_image_vision silent_image_text
    by simp
qed


section \<open>A failing receipt does not stop the batch\<close>

lemma single_result_files: "snd (process_single_receipt L q files) = snd (process_single_receipt L q {})"
  by (auto simp: process_single_receipt_def Let_def split: option.splits sum.splits)

lemma summarize_frame:
  "summarize its st = (st', eo) \<Longrightarrow>
     errors st' = errors st \<and> all_items st' = all_items st \<and> tmp_files st' = tmp_files st"
proof (induction its arbitrary: st)
  case Nil then show ?case by simp
next
  case (Cons it its)
  then show ?case
    by (auto simp: Let_def split: sum.splits if_splits)
qed

lemma summarize_exn: "snd (summarize its st) = snd (summarize its st0)"
proof (induction its arbitrary: st st0)
  case Nil then show ?case by simp
next
  case (Cons it its)
  show ?case
    by (auto simp: Let_def split: sum.splits intro: Cons.IH)
qed

lemma summarize_lines:
  "summarize its st = (st', None) \<Longrightarrow> length (all_summary_lines st') = length (all_summary_lines st) + length its"
proof (induction its arbitrary: st)
  case Nil then show ?case by simp
next
  case (Cons it its)
  then show ?case
    by (auto simp: Let_def split: sum.splits if_splits)
qed

lemma summarize_lines_mono:
  "summarize its st = (st', eo) \<Longrightarrow> length (all_summary_lines st) \<le> length (all_summary_lines st')"
proof (induction its arbitrary: st)
  case Nil then show ?case by simp
next
  case (Cons it its)
  then show ?case
    by (fastforce simp: Let_def split: sum.splits if_splits)
qed

lemma record_exception_errors:
  "errors (record_exception i e st) = errors st @ [receipt_label i @ caught_message e]"
  by (simp add: record_exception_def add_error_def caught_message_def)

lemma record_exception_frame:
  "all_items (record_exception i e st) = all_items st \<and> all_summary_lines (record_exception i e st) = all_summary_lines st"
  by (simp add: record_exception_def add_error_def)

lemma unlink_frame:
  "errors (unlink_tmp t st) = errors st \<and> all_items (unlink_tmp t st) = all_items st
   \<and> all_summary_lines (unlink_tmp t st) = all_summary_lines st"
  by (simp add: unlink_tmp_def)

lemma upload_frame:
  "errors (upload_to_drive C q t st) = errors st \<and> all_items (upload_to_drive C q t st) = all_items st
   \<and> all_summary_lines (upload_to_drive C q t st) = all_summary_lines st"
  by (simp add: upload_to_drive_def split: option.splits)

lemma process_receipt_errors:
  "errors (process_receipt L C i q st) = errors st @ error_entries L (i, q)"
proof -
  obtain files r where r: "process_single_receipt L q (tmp_files st) = (files, r)"
    by (cases "process_single_receipt L q (tmp_files st)")
  then have r0: "snd (process_single_receipt L q {}) = r"
    using single_result_files [of L q "tmp_files st"] by simp
  show ?thesis
  proof (cases r)
    case (Inl e)
    then show ?thesis using r r0
      by (simp add: process_receipt_def error_entries_def receipt_error_def record_exception_errors)
  next
    case (Inr p)
    obtain out tmp where p: "p = (out, tmp)" by (cases p)
    show ?thesis
    proof (cases "success out \<and> items out \<noteq> []")
      case False
      then show ?thesis using r r0 Inr p
        by (auto simp: process_receipt_def error_entries_def receipt_error_def Let_def unlink_frame add_error_def
            split: option.splits)
    next
      case True
      show ?thesis
      proof (cases "update_soa_raises q")
        case (Some e)
        then show ?thesis using r r0 Inr p True
          by (simp add: process_receipt_def error_entries_def receipt_error_def Let_def unlink_frame record_exception_errors)
      next
        case None
        let ?st2 = "st\<lparr>tmp_files := files, soa_rows := soa_rows st @ items out,
                        all_items := all_items st @ items out,
                        methods_used := insert (extraction_method out) (methods_used st)\<rparr>"
        obtain st3 eo where s: "summarize (items out) ?st2 = (st3, eo)"
          by (cases "summarize (items out) ?st2")
        have eo: "snd (summarize (items out) (initial_batch_state {})) = eo"
          using summarize_exn [of "items out" ?st2 "initial_batch_state {}"] s by simp
        have fr: "errors st3 = errors st" using summarize_frame [OF s] by simp
        show ?thesis using r r0 Inr p True None s eo fr
          by (cases eo) (simp_all add: process_receipt_def error_entries_def receipt_error_def Let_def unlink_frame
              record_exception_errors upload_frame)
      qed
    qed
  qed
qed

lemma process_receipt_items:
  "all_items (process_receipt L C i q st) = all_items st @ receipt_items L q"
proof -
  obtain files r where r: "process_single_receipt L q (tmp_files st) = (files, r)"
    by (cases "process_single_receipt L q (tmp_files st)")
  then have r0: "snd (process_single_receipt L q {}) = r"
    using single_result_files [of L q "tmp_files st"] by simp
  show ?thesis
  proof (cases r)
    case (Inl e)
    then show ?thesis using r r0
      by (simp add: process_receipt_def receipt_items_def record_exception_frame)
  next
    case (Inr p)
    obtain out tmp where p: "p = (out, tmp)" by (cases p)
    show ?thesis
    proof (cases "success out \<and> items out \<noteq> []")
      case False
      then show ?thesis using r r0 Inr p
        by (auto simp: process_receipt_def receipt_items_def Let_def unlink_frame add_error_def)
    next
      case True
      show ?thesis
      proof (cases "update_soa_raises q")
        case (Some e)
        then show ?thesis using r r0 Inr p True
          by (simp add: process_receipt_def receipt_items_def Let_def unlink_frame record_exception_frame)
      next
        case None
        let ?st2 = "st\<lparr>tmp_files := files, soa_rows := soa_rows st @ items out,
                        all_items := all_items st @ items out,
                        methods_used := insert (extraction_method out) (methods_used st)\<rparr>"
        obtain st3 eo where s: "summarize (items out) ?st2 = (st3, eo)"
          by (cases "summarize (items out) ?st2")
        have fr: "all_items st3 = all_items st @ items out" using summarize_frame [OF s] by simp
        show ?thesis using r r0 Inr p True None s fr
          by (cases eo) (simp_all add: process_receipt_def receipt_items_def Let_def unlink_frame
              record_exception_frame upload_frame)
      qed
    qed
  qed
qed

lemma process_receipts_errors:
  "errors (process_receipts L C i qs st) = errors st @ concat (map (error_entries L) (enumerate i qs))"
  by (induction qs arbitrary: i st) (simp_all add: process_receipt_errors)

lemma process_receipts_items:
  "all_items (process_receipts L C i qs st) = all_items st @ concat (map (receipt_items L) qs)"
  by (induction qs arbitrary: i st) (simp_all add: process_receipt_items)


lemma error_entries_length:
  "length (concat (map (error_entries L) (enumerate i qs))) = length (filter (\<lambda>q. receipt_error L q \<noteq> None) qs)"
  by (induction qs arbitrary: i) (auto simp: error_entries_def split: option.splits)

lemma process_receipt_lines_mono:
  "length (all_summary_lines st) \<le> length (all_summary_lines (process_receipt L C i q st))"
proof -
  obtain files r where r: "process_single_receipt L q (tmp_files st) = (files, r)"
    by (cases "process_single_receipt L q (tmp_files st)")
  show ?thesis
  proof (cases r)
    case (Inl e)
    then show ?thesis using r by (simp add: process_receipt_def record_exception_frame)
  next
    case (Inr p)
    obtain out tmp where p: "p = (out, tmp)" by (cases p)
    let ?st2 = "st\<lparr>tmp_files := files, soa_rows := soa_rows st @ items out,
                    all_items := all_items st @ items out,
                    methods_used := insert (extraction_method out) (methods_used st)\<rparr>"
    obtain st3 eo where s: "summarize (items out) ?st2 = (st3, eo)"
      by (cases "summarize (items out) ?st2")
    have m: "length (all_summary_lines st) \<le> length (all_summary_lines st3)"
      using summarize_lines_mono [OF s] by simp
    show ?thesis using r Inr p s m
      by (cases eo) (auto simp: process_receipt_def Let_def unlink_frame record_exception_frame upload_frame
          add_error_def split: option.splits)
  qed
qed

lemma process_receipt_lines_grow:
  assumes "receipt_error L q = None"
  shows "length (all_summary_lines st) < length (all_summary_lines (process_receipt L C i q st))"
proof -
  obtain files r where r: "process_single_receipt L q (tmp_files st) = (files, r)"
    by (cases "process_single_receipt L q (tmp_files st)")
  then have r0: "snd (process_single_receipt L q {}) = r"
    using single_result_files [of L q "tmp_files st"] by simp
  from assms r0 obtain out tmp where p: "r = Inr (out, tmp)"
    by (cases r) (auto simp: receipt_error_def)
  from assms r0 p have ok: "success out \<and> items out \<noteq> []" and soa: "update_soa_raises q = None"
    by (auto simp: receipt_error_def split: if_splits option.splits)
  let ?st2 = "st\<lparr>tmp_files := files, soa_rows := soa_rows st @ items out,
                  all_items := all_items st @ items out,
                  methods_used := insert (extraction_method out) (methods_used st)\<rparr>"
  obtain st3 eo where s: "summarize (items out) ?st2 = (st3, eo)"
    by (cases "summarize (items out) ?st2")
  have "snd (summarize (items out) (initial_batch_state {})) = eo"
    using summarize_exn [of "items out" ?st2 "initial_batch_state {}"] s by simp
  with assms r0 p ok soa have eo: "eo = None"
    by (simp add: receipt_error_def)
  have "length (all_summary_lines st3) = length (all_summary_lines st) + length (items out)"
    using summarize_lines [of "items out" ?st2 st3] s eo by simp
  then have "length (all_summary_lines st) < length (all_summary_lines st3)"
    using ok by (cases "items out") auto
  then show ?thesis using r p ok soa s eo
    by (simp add: process_receipt_def Let_def unlink_frame upload_frame)
qed

lemma process_receipts_lines_mono:
  "length (all_summary_lines st) \<le> length (all_summary_lines (process_receipts L C i qs st))"
proof (induction qs arbitrary: i st)
  case Nil then show ?case by simp
next
  case (Cons q qs)
  show ?case using Cons.IH [of "process_receipt L C i q st" "Suc i"] process_receipt_lines_mono [of st L C i q]
    by simp
qed

lemma process_receipts_lines_grow:
  "\<exists>q \<in> set qs. receipt_error L q = None \<Longrightarrow>
     length (all_summary_lines st) < length (all_summary_lines (process_receipts L C i qs st))"
proof (induction qs arbitrary: i st)
  case Nil then show ?case by simp
next
  case (Cons q qs)
  show ?case
  proof (cases "receipt_error L q = None")
    case True
    then show ?thesis
      using process_receipt_lines_grow [of L q st C i]
        process_receipts_lines_mono [of "process_receipt L C i q st" L C "Suc i" qs]
      by simp
  next
    case False
    with Cons.prems have "\<exists>q \<in> set qs. receipt_error L q = None" by auto
    then show ?thesis
      using Cons.IH [of "process_receipt L C i q st" "Suc i"] process_receipt_lines_mono [of st L C i q]
      by simp
  qed
qed

lemma timed_out_receipt:
  "get_file_raises q = None \<Longrightarrow> download_raises q = None \<Longrightarrow> times_out q \<Longrightarrow>
     receipt_error L q = Some ''Timed out'' \<and> receipt_items L q = []"
  by (simp add: receipt_error_def receipt_items_def process_single_receipt_def caught_message_def)

text \<open>
  C5. The receipts of a batch are processed in the order of the queue. A receipt that
  fails or times out adds one error entry, \<open>Receipt k: ...\<close> with its position \<open>k\<close>
  counted from 1 (\<open>Timed out\<close> for a timeout), and the loop goes on with the next
  receipt: the items of the batch are the items of its successful receipts in
  order, and there is exactly one error entry for each failed receipt. A batch in
  which a receipt succeeds is reported as processed, with all summary lines and the
  error entries of the failed receipts.
\<close>

theorem batch_failure_isolation:
  assumes "sheets_configured C" and "sheets_init_raises C = None"
    and "process_media_group_receipts L C qs files = (st, rep)"
  shows "all_items st = concat (map (receipt_items L) qs)
       \<and> errors st = concat (map (error_entries L) (enumerate 0 qs))
       \<and> length (errors st) = length (filter (\<lambda>q. receipt_error L q \<noteq> None) qs)
       \<and> (\<forall>q \<in> set qs. get_file_raises q = None \<and> download_raises q = None \<and> times_out q \<longrightarrow>
             receipt_error L q = Some ''Timed out'' \<and> receipt_items L q = [])
       \<and> ((\<exists>q \<in> set qs. receipt_error L q = None) \<longrightarrow>
             all_summary_lines st \<noteq> []
             \<and> rep = Processed (length qs) (all_summary_lines st) (total_amount st) (methods_used st) (errors st))
       \<and> ((\<exists>q \<in> set qs. receipt_error L q \<noteq> None) \<longrightarrow> errors st \<noteq> [])"
proof -
  have st: "st = process_receipts L C 0 qs (initial_batch_state files)"
    and rep: "rep = final_report (length qs) st"
    using assms by (auto simp: process_media_group_receipts_def Let_def)
  have i: "all_items st = concat (map (receipt_items L) qs)"
    unfolding st by (simp add: process_receipts_items initial_batch_state_def)
  have e: "errors st = concat (map (error_entries L) (enumerate 0 qs))"
    unfolding st by (simp add: process_receipts_errors initial_batch_state_def)
  have n: "length (errors st) = length (filter (\<lambda>q. receipt_error L q \<noteq> None) qs)"
    unfolding e by (rule error_entries_length)
  have t: "\<forall>q \<in> set qs. get_file_raises q = None \<and> download_raises q = None \<and> times_out q \<longrightarrow>
             receipt_error L q = Some ''Timed out'' \<and> receipt_items L q = []"
    using timed_out_receipt by blast
  have p: "(\<exists>q \<in> set qs. receipt_error L q = None) \<longrightarrow>
             all_summary_lines st \<noteq> []
             \<and> rep = Processed (length qs) (all_summary_lines st) (total_amount st) (methods_used st) (errors st)"
  proof
    assume "\<exists>q \<in> set qs. receipt_error L q = None"
    then have "length (all_summary_lines (initial_batch_state files)) < length (all_summary_lines st)"
      unfolding st by (rule process_receipts_lines_grow)
    then have "all_summary_lines st \<noteq> []" by auto
    then show "all_summary_lines st \<noteq> []
             \<and> rep = Processed (length qs) (all_summary_lines st) (total_amount st) (methods_used st) (errors st)"
      using rep by (simp add: final_report_def)
  qed
  have f: "(\<exists>q \<in> set qs. receipt_error L q \<noteq> None) \<longrightarrow> errors st \<noteq> []"
  proof
    assume "\<exists>q \<in> set qs. receipt_error L q \<noteq> None"
    then have "filter (\<lambda>q. receipt_error L q \<noteq> None) qs \<noteq> []"
      by (simp add: filter_empty_conv)
    then show "errors st \<noteq> []" using n by auto
  qed
  show ?thesis using i e n t p f by blast
qed

lemma three_receipts_run:
  "process_media_group_receipts example_lib configured three_receipts {} =
     (\<lparr>all_items = [\<lparr>Date = Some ''04/11/2026'', Item = ''Coffee'', Price = PFloat (Finite 4.5),
                      Qty = PFloat (Finite 1), Total = PFloat (Finite 4.5)\<rparr>,
                    \<lparr>Date = Some ''04/11/2026'', Item = ''Coffee'', Price = PFloat (Finite 4.5),
                      Qty = PFloat (Finite 1), Total = PFloat (Finite 4.5)\<rparr>],
       all_summary_lines = [AmountLine ''04/11/2026'' ''Coffee'' (Finite 4.5),
                            AmountLine ''04/11/2026'' ''Coffee'' (Finite 4.5)],
       total_amount = Finite 9, methods_used = {''gemini_vision''},
       errors = [''Receipt 2: Timed out''], drive_uploaded = True, drive_error = None,
       tmp_files = {},
       soa_rows = [\<lparr>Date = Some ''04/11/2026'', Item = ''Coffee'', Price = PFloat (Finite 4.5),
                     Qty = PFloat (Finite 1), Total = PFloat (Finite 4.5)\<rparr>,
                   \<lparr>Date = Some ''04/11/2026'', Item = ''Coffee'', Price = PFloat (Finite 4.5),
                     Qty = PFloat (Finite 1), Total = PFloat (Finite 4.5)\<rparr>]\<rparr>,
      Processed 3 [AmountLine ''04/11/2026'' ''Coffee'' (Finite 4.5),
                   AmountLine ''04/11/2026'' ''Coffee'' (Finite 4.5)]
        (Finite 9) {''gemini_vision''} [''Receipt 2: Timed out''])"
  by code_simp

theorem batch_failure_isolation_witness:
  "sheets_configured configured \<and> sheets_init_raises configured = None
   \<and> concat (map (error_entries example_lib) (enumerate 0 three_receipts)) = [''Receipt 2: Timed out'']
   \<and> concat (map (receipt_items example_lib) three_receipts) =
       [\<lparr>Date = Some ''04/11/2026'', Item = ''Coffee'', Price = PFloat (Finite 4.5),
          Qty = PFloat (Finite 1), Total = PFloat (Finite 4.5)\<rparr>,
        \<lparr>Date = Some ''04/11/2026'', Item = ''Coffee'', Price = PFloat (Finite 4.5),
          Qty = PFloat (Finite 1), Total = PFloat (Finite 4.5)\<rparr>]
   \<and> length (filter (\<lambda>q. receipt_error example_lib q \<noteq> None) three_receipts) = 1"
proof -
  have c: "sheets_configured configured" "sheets_init_raises configured = None"
    by (simp_all add: configured_def)
  show ?thesis
    using batch_failure_isolation [OF c three_receipts_run] c by simp
qed

section \<open>The temporary file of a receipt\<close>

lemma summarize_files: "summarize its st = (st', eo) \<Longrightarrow> tmp_files st' = tmp_files st"
  using summarize_frame by blast

lemma tmp_removed:
  assumes "download_raises q = None" and "q_tmp q \<noteq> []"
  shows "tmp_files (process_receipt L C i q st) =
           (if get_file_raises q = None then tmp_files st - {q_tmp q} else tmp_files st)"
proof (cases "get_file_raises q")
  case (Some e)
  then show ?thesis
    by (simp add: process_receipt_def process_single_receipt_def record_exception_def add_error_def)
next
  case None
  show ?thesis
  proof (cases "times_out q")
    case True
    then show ?thesis using None assms
      by (simp add: process_receipt_def process_single_receipt_def record_exception_def add_error_def)
  next
    case False
    show ?thesis
    proof (cases "snd (extract_receipt_data L (engines_of q))")
      case (Inl e)
      then show ?thesis using None False assms
        by (simp add: process_receipt_def process_single_receipt_def record_exception_def add_error_def)
    next
      case (Inr out)
      let ?files = "insert (q_tmp q) (tmp_files st)"
      let ?st2 = "st\<lparr>tmp_files := ?files, soa_rows := soa_rows st @ items out,
                      all_items := all_items st @ items out,
                      methods_used := insert (extraction_method out) (methods_used st)\<rparr>"
      obtain st3 eo where s: "summarize (items out) ?st2 = (st3, eo)"
        by (cases "summarize (items out) ?st2")
      have f: "tmp_files st3 = ?files" using summarize_files [OF s] by simp
      show ?thesis using None False assms Inr s f
        by (cases eo; cases "update_soa_raises q")
          (auto simp: process_receipt_def process_single_receipt_def record_exception_def add_error_def
            unlink_tmp_def upload_to_drive_def Let_def split: option.splits)
    qed
  qed
qed

text \<open>
  C9 asks that the temporary file is gone on every path. The file is created before
  the download and the \<open>try\<close> that unlinks it starts after the download: when the
  download raises, the file stays, in the batch loop and in the handler of a single
  receipt alike.
\<close>

theorem failed_download_leaves_file:
  "tmp_files (fst (process_media_group_receipts example_lib configured [failed_download] {})) =
     {''/tmp/tmpa.jpg''}
   \<and> fst (handle_receipt_extraction example_lib configured (Some failed_download) {}) =
     {''/tmp/tmpa.jpg''}"
  by code_simp


section \<open>The album collector\<close>
















lemma notice_failure_loses_batch:
  "drain notice_fails (deliver notice_fails album_events initial_collector) = initial_collector"
  by code_simp



end
